theory Spec2Isabelle
  imports Complex_Main
begin

section \<open>Python values shared by the three scripts\<close>

text \<open>
  The repository holds three scripts: \<^verbatim>\<open>ingest_harvard.py\<close> (feed, AI analysis, database
  upsert), \<^verbatim>\<open>pipeline.py\<close> (feed, download to a local folder, blob upload with
  overwrite) and \<^verbatim>\<open>dash_ingest.py\<close> (feed, blob existence check, download, blob upload).
  Every call into a library that talks to the outside (feed parser, HTTP client, AI
  client, database client, blob client) is a field of the record \<open>services\<close> below: a
  function from the call's arguments to either the exception it raises (\<open>Inl\<close>) or the
  value it returns (\<open>Inr\<close>). A Python \<open>str\<close> is a \<open>string\<close>, one \<open>char\<close> standing for one
  character (a code point up to U+00FF).
\<close>

type_synonym bytes = string

datatype exn =
    AttributeError
  | KeyError
  | ZeroDivisionError
  | JSONDecodeError
  | ResourceExistsError
  | ServiceError string

text \<open>How the process ends: normally, by \<^verbatim>\<open>sys.exit(n)\<close>, or by an uncaught exception
  (the interpreter then exits with code 1).\<close>

datatype outcome = Completed | SysExit nat | Uncaught exn

fun exit_code :: "outcome \<Rightarrow> nat" where
  "exit_code Completed = 0"
| "exit_code (SysExit n) = n"
| "exit_code (Uncaught e) = 1"

text \<open>The objects \<^verbatim>\<open>json.loads\<close> can return. Numbers are rationals: only whether a number
  is zero is ever observed (its truth value).\<close>

datatype json =
    JNull
  | JBool bool
  | JNum rat
  | JStr string
  | JList "json list"
  | JDict "(string \<times> json) list"

text \<open>Python's truth value of an object, as \<^verbatim>\<open>if not analysis\<close> reads it.\<close>

fun truthy :: "json \<Rightarrow> bool" where
  "truthy JNull = False"
| "truthy (JBool b) = b"
| "truthy (JNum r) = (r \<noteq> 0)"
| "truthy (JStr s) = (s \<noteq> [])"
| "truthy (JList xs) = (xs \<noteq> [])"
| "truthy (JDict kvs) = (kvs \<noteq> [])"

text \<open>\<^verbatim>\<open>obj.get(key, default)\<close>: only a dict has the method; on any other object the
  attribute lookup raises AttributeError.\<close>

fun dict_get :: "json \<Rightarrow> string \<Rightarrow> json \<Rightarrow> exn + json" where
  "dict_get (JDict kvs) k d = Inr (case map_of kvs k of None \<Rightarrow> d | Some v \<Rightarrow> v)"
| "dict_get _ k d = Inl AttributeError"

text \<open>\<^verbatim>\<open>s.endswith(suffix)\<close>, \<^verbatim>\<open>s.strip()\<close>, \<^verbatim>\<open>s.replace(" ", "_").replace("/", "_")\<close>
  and \<^verbatim>\<open>s.split("/")[-1]\<close>. \<open>is_space\<close> lists the characters up to U+00FF for which
  \<^verbatim>\<open>str.isspace\<close> holds: the ASCII whitespace U+0009 to U+000D and U+0020, the
  separators U+001C to U+001F, next line U+0085 and no-break space U+00A0.\<close>

definition endswith :: "string \<Rightarrow> string \<Rightarrow> bool" where
  "endswith s suf = (length suf \<le> length s \<and> drop (length s - length suf) s = suf)"

definition is_space :: "char \<Rightarrow> bool" where
  "is_space c = (c \<in> set [CHR '' '', CHR 0x09, CHR 0x0A, CHR 0x0B, CHR 0x0C, CHR 0x0D,
                           CHR 0x1C, CHR 0x1D, CHR 0x1E, CHR 0x1F, CHR 0x85, CHR 0xA0])"

definition strip :: "string \<Rightarrow> string" where
  "strip s = rev (dropWhile is_space (rev (dropWhile is_space s)))"

definition replace_space_slash :: "string \<Rightarrow> string" where
  "replace_space_slash s =
     map (\<lambda>c. if c = CHR ''/'' then CHR ''_'' else c)
       (map (\<lambda>c. if c = CHR '' '' then CHR ''_'' else c) s)"

definition last_segment :: "string \<Rightarrow> string" where
  "last_segment s = rev (takeWhile (\<lambda>c. c \<noteq> CHR ''/'') (rev s))"

section \<open>Feed entries\<close>

text \<open>
  A feed entry is a dictionary whose keys may be missing. \<^verbatim>\<open>entry.get(k, d)\<close> gives the
  default for a missing key; the attribute form \<^verbatim>\<open>entry.title\<close> raises AttributeError.
\<close>

record feed_link =
  l_type :: "string option"
  l_href :: "string option"

record entry =
  e_title :: "string option"
  e_link :: "string option"
  e_summary :: "string option"
  e_published :: "string option"
  e_author :: "string option"
  e_id :: "string option"
  e_links :: "feed_link list option"

definition get_or :: "'a option \<Rightarrow> 'a \<Rightarrow> 'a" where
  "get_or v d = (case v of None \<Rightarrow> d | Some x \<Rightarrow> x)"

definition attr :: "'a option \<Rightarrow> exn + 'a" where
  "attr v = (case v of None \<Rightarrow> Inl AttributeError | Some x \<Rightarrow> Inr x)"

section \<open>Records written to the sinks, events, services\<close>

record paper =
  p_title :: string
  p_link :: string
  p_summary :: string
  p_published :: string
  p_authors :: string
  p_id :: string

text \<open>The dictionary \<^verbatim>\<open>data\<close> of \<^verbatim>\<open>store_in_supabase\<close>, one field per key.\<close>

record db_row =
  paper_id :: string
  title :: string
  authors :: string
  published_date :: string
  link :: string
  summary :: string
  ai_topic :: json
  ai_findings :: string
  ai_methodology :: json
  ai_significance :: json
  ai_keywords :: string
  processed_at :: string
  source :: string
  metadata :: string

record response =
  status_code :: nat
  content :: bytes

text \<open>The console lines that carry data (banners, separators and clock readings are
  left out), one constructor per \<^verbatim>\<open>print\<close>.\<close>

datatype msg =
    MissingEnv "string list"
  | EnvValidated
  | PipelineAborted
  | FetchingPapers
  | NoEntries
  | FetchedPapers nat
  | FetchError exn
  | NoPapers
  | ProcessingPaper nat nat
  | Analyzing string
  | AnalysisCompleted
  | Topic json
  | AnalysisFailed exn
  | Storing
  | InsertSuccessful
  | RecordId string
  | InsertNoData
  | InsertFailed exn
  | SummaryCounts nat nat nat
  | SuccessRate rat
  | ExecutionComplete
  | FoundEntries nat
  | Downloading string
  | AlreadyDownloaded string
  | Uploaded string
  | RunComplete
  | Skipping string
  | DownloadingBlob string
  | UploadedBlob string
  | Failed string

text \<open>What a run does that can be observed: the requests it sends and the lines it
  prints, in order.\<close>

datatype event =
    FeedParse string
  | ChatCall string string
  | UpsertCall db_row
  | HttpGet string
  | ListBlobs
  | UploadBlob string bytes bool
  | Print msg

fun is_call :: "event \<Rightarrow> bool" where
  "is_call (Print m) = False"
| "is_call _ = True"

record services =
  feedparser_parse :: "string \<Rightarrow> exn + entry list"
  openai_client :: "string option \<Rightarrow> string \<Rightarrow> exn option"
  chat_completions_create :: "string \<Rightarrow> string \<Rightarrow> exn + string"
  json_loads :: "string \<Rightarrow> exn + json"
  json_dumps :: "json \<Rightarrow> string"
  utcnow_isoformat :: string
  create_client :: "string option \<Rightarrow> string option \<Rightarrow> exn option"
  upsert_execute :: "db_row \<Rightarrow> exn + bool"
  from_connection_string :: "string option \<Rightarrow> exn option"
  requests_get :: "string \<Rightarrow> exn + response"
  list_blobs_error :: "exn option"
  upload_blob_error :: "string \<Rightarrow> exn option"

section \<open>ingest\_harvard.py\<close>

definition DASH_RSS_FEED :: string where
  "DASH_RSS_FEED = ''https://dash.harvard.edu/feed/rss_1.0/site''"

definition MAX_PAPERS_PER_RUN :: nat where
  "MAX_PAPERS_PER_RUN = 10"

definition MAX_TEXT_LENGTH :: nat where
  "MAX_TEXT_LENGTH = 8000"

text \<open>The module globals read from the process environment by \<^verbatim>\<open>os.environ.get\<close>.\<close>

record config =
  AZURE_AI_ENDPOINT :: "string option"
  AZURE_AI_KEY :: "string option"
  SUPABASE_URL :: "string option"
  SUPABASE_KEY :: "string option"

definition load_config :: "(string \<Rightarrow> string option) \<Rightarrow> config" where
  "load_config environ =
     \<lparr> AZURE_AI_ENDPOINT = environ ''AZURE_AI_ENDPOINT'',
       AZURE_AI_KEY = environ ''AZURE_AI_KEY'',
       SUPABASE_URL = environ ''SUPABASE_URL'',
       SUPABASE_KEY = environ ''SUPABASE_KEY'' \<rparr>"

definition required :: "config \<Rightarrow> (string \<times> string option) list" where
  "required cfg =
     [(''AZURE_AI_ENDPOINT'', AZURE_AI_ENDPOINT cfg),
      (''AZURE_AI_KEY'', AZURE_AI_KEY cfg),
      (''SUPABASE_URL'', SUPABASE_URL cfg),
      (''SUPABASE_KEY'', SUPABASE_KEY cfg)]"

text \<open>\<^verbatim>\<open>not value\<close> for a value that is None or a string.\<close>

definition not_value :: "string option \<Rightarrow> bool" where
  "not_value v = (v = None \<or> v = Some [])"

definition missing :: "config \<Rightarrow> string list" where
  "missing cfg = map fst (filter (\<lambda>(name, v). not_value v) (required cfg))"

definition validate_environment :: "config \<Rightarrow> bool \<times> event list" where
  "validate_environment cfg =
     (if missing cfg \<noteq> [] then (False, [Print (MissingEnv (missing cfg))])
      else (True, [Print EnvValidated]))"

definition paper_of_entry :: "entry \<Rightarrow> paper" where
  "paper_of_entry e =
     \<lparr> p_title = get_or (e_title e) ''Untitled'',
       p_link = get_or (e_link e) '''',
       p_summary = get_or (e_summary e) '''',
       p_published = get_or (e_published e) '''',
       p_authors = get_or (e_author e) ''Unknown'',
       p_id = get_or (e_id e) (get_or (e_link e) '''') \<rparr>"

definition fetch_harvard_papers :: "services \<Rightarrow> paper list \<times> event list" where
  "fetch_harvard_papers svc =
     (case feedparser_parse svc DASH_RSS_FEED of
        Inl e \<Rightarrow> ([], [Print FetchingPapers, FeedParse DASH_RSS_FEED, Print (FetchError e)])
      | Inr entries \<Rightarrow>
          if entries = []
          then ([], [Print FetchingPapers, FeedParse DASH_RSS_FEED, Print NoEntries])
          else (map paper_of_entry (take MAX_PAPERS_PER_RUN entries),
                [Print FetchingPapers, FeedParse DASH_RSS_FEED,
                 Print (FetchedPapers
                   (length (map paper_of_entry (take MAX_PAPERS_PER_RUN entries))))]))"

text \<open>The f-string \<^verbatim>\<open>text_to_analyze\<close>, with the text put after \<^verbatim>\<open>Summary:\<close> as a
  parameter; the source puts \<^verbatim>\<open>paper['summary'][:MAX_TEXT_LENGTH]\<close> there.\<close>

definition text_with_summary :: "paper \<Rightarrow> string \<Rightarrow> string" where
  "text_with_summary p s =
     [CHR 0x0A] @ ''Title: '' @ p_title p @
     [CHR 0x0A] @ ''Authors: '' @ p_authors p @
     [CHR 0x0A] @ ''Published: '' @ p_published p @
     [CHR 0x0A, CHR 0x0A] @ ''Summary:'' @ [CHR 0x0A] @ s @ [CHR 0x0A]"

definition text_to_analyze :: "paper \<Rightarrow> string" where
  "text_to_analyze p = text_with_summary p (take MAX_TEXT_LENGTH (p_summary p))"

text \<open>The dictionary built in the \<^verbatim>\<open>except json.JSONDecodeError\<close> branch.\<close>

definition default_analysis :: "string \<Rightarrow> json" where
  "default_analysis analysis_text =
     JDict [(''topic'', JStr ''Academic Research''),
            (''findings'', JList [JStr (take 200 analysis_text)]),
            (''methodology'', JStr ''See summary''),
            (''significance'', JStr (take 300 analysis_text)),
            (''keywords'', JList [JStr ''research'', JStr ''Harvard'', JStr ''academic''])]"

text \<open>
  \<^verbatim>\<open>analyze_paper_with_ai\<close>. The result \<open>None\<close> is Python's None. Everything after the
  first \<^verbatim>\<open>print\<close> is inside \<^verbatim>\<open>try ... except Exception\<close>: the endpoint being None
  (\<^verbatim>\<open>.endswith\<close> on None), the client constructor, the completion call (with the reading
  of \<^verbatim>\<open>response.choices[0].message.content\<close>), a \<^verbatim>\<open>json.loads\<close> error other than
  JSONDecodeError and \<^verbatim>\<open>analysis.get\<close> on an object that is not a dict all end in the
  handler, which returns None.
\<close>

definition analyze_paper_with_ai :: "config \<Rightarrow> services \<Rightarrow> paper \<Rightarrow> json option \<times> event list" where
  "analyze_paper_with_ai cfg svc p =
     (case attr (AZURE_AI_ENDPOINT cfg) of
        Inl e \<Rightarrow> (None, [Print (Analyzing (take 60 (p_title p))), Print (AnalysisFailed e)])
      | Inr endpoint \<Rightarrow>
          (let base_url = (if endswith endpoint ''/v1'' then endpoint else endpoint @ ''/v1'') in
           case openai_client svc (AZURE_AI_KEY cfg) base_url of
             Some e \<Rightarrow> (None, [Print (Analyzing (take 60 (p_title p))), Print (AnalysisFailed e)])
           | None \<Rightarrow>
               (case chat_completions_create svc base_url (text_to_analyze p) of
                  Inl e \<Rightarrow>
                    (None, [Print (Analyzing (take 60 (p_title p))),
                            ChatCall base_url (text_to_analyze p), Print (AnalysisFailed e)])
                | Inr message_content \<Rightarrow>
                    (case (case json_loads svc (strip message_content) of
                             Inr a \<Rightarrow> Inr a
                           | Inl JSONDecodeError \<Rightarrow> Inr (default_analysis (strip message_content))
                           | Inl e \<Rightarrow> Inl e) of
                       Inl e \<Rightarrow>
                         (None, [Print (Analyzing (take 60 (p_title p))),
                                 ChatCall base_url (text_to_analyze p), Print (AnalysisFailed e)])
                     | Inr analysis \<Rightarrow>
                         (case dict_get analysis ''topic'' (JStr ''N/A'') of
                            Inl e \<Rightarrow>
                              (None, [Print (Analyzing (take 60 (p_title p))),
                                      ChatCall base_url (text_to_analyze p),
                                      Print AnalysisCompleted, Print (AnalysisFailed e)])
                          | Inr t \<Rightarrow>
                              (Some analysis, [Print (Analyzing (take 60 (p_title p))),
                                      ChatCall base_url (text_to_analyze p),
                                      Print AnalysisCompleted, Print (Topic t)]))))))"

text \<open>The dictionary \<^verbatim>\<open>data\<close>; \<^verbatim>\<open>analysis.get\<close> raises when \<^verbatim>\<open>analysis\<close> is no dict.\<close>

definition row_data :: "services \<Rightarrow> paper \<Rightarrow> json \<Rightarrow> exn + db_row" where
  "row_data svc p analysis =
     (case dict_get analysis ''topic'' (JStr '''') of
        Inl e \<Rightarrow> Inl e
      | Inr topic \<Rightarrow>
     (case dict_get analysis ''findings'' (JList []) of
        Inl e \<Rightarrow> Inl e
      | Inr findings \<Rightarrow>
     (case dict_get analysis ''methodology'' (JStr '''') of
        Inl e \<Rightarrow> Inl e
      | Inr methodology \<Rightarrow>
     (case dict_get analysis ''significance'' (JStr '''') of
        Inl e \<Rightarrow> Inl e
      | Inr significance \<Rightarrow>
     (case dict_get analysis ''keywords'' (JList []) of
        Inl e \<Rightarrow> Inl e
      | Inr keywords \<Rightarrow>
          Inr \<lparr> paper_id = p_id p,
                title = p_title p,
                authors = p_authors p,
                published_date = p_published p,
                link = p_link p,
                summary = take 500 (p_summary p),
                ai_topic = topic,
                ai_findings = json_dumps svc findings,
                ai_methodology = methodology,
                ai_significance = significance,
                ai_keywords = json_dumps svc keywords,
                processed_at = utcnow_isoformat svc,
                source = ''Harvard DASH'',
                metadata = json_dumps svc
                  (JDict [(''feed_url'', JStr DASH_RSS_FEED),
                          (''processed_by'', JStr ''harvard-pipeline''),
                          (''ai_model'', JStr ''gpt-3.5-turbo'')]) \<rparr>)))))"

text \<open>\<^verbatim>\<open>store_in_supabase\<close>: the whole body is inside \<^verbatim>\<open>try ... except Exception\<close>, whose
  handler returns False. \<open>Inr b\<close> of \<open>upsert_execute\<close> is the truth value of
  \<^verbatim>\<open>result.data\<close>.\<close>

definition store_in_supabase :: "config \<Rightarrow> services \<Rightarrow> paper \<Rightarrow> json \<Rightarrow> bool \<times> event list" where
  "store_in_supabase cfg svc p analysis =
     (case create_client svc (SUPABASE_URL cfg) (SUPABASE_KEY cfg) of
        Some e \<Rightarrow> (False, [Print Storing, Print (InsertFailed e)])
      | None \<Rightarrow>
          (case row_data svc p analysis of
             Inl e \<Rightarrow> (False, [Print Storing, Print (InsertFailed e)])
           | Inr data \<Rightarrow>
               (case upsert_execute svc data of
                  Inl e \<Rightarrow> (False, [Print Storing, UpsertCall data, Print (InsertFailed e)])
                | Inr has_data \<Rightarrow>
                    if has_data
                    then (True, [Print Storing, UpsertCall data, Print InsertSuccessful,
                                 Print (RecordId (take 40 (p_id p)))])
                    else (False, [Print Storing, UpsertCall data, Print InsertNoData]))))"

text \<open>The body of the \<^verbatim>\<open>for\<close> loop of \<^verbatim>\<open>main\<close> for one paper: True when the paper
  increments \<^verbatim>\<open>successful\<close>, False when it increments \<^verbatim>\<open>failed\<close>.\<close>

definition process_paper :: "config \<Rightarrow> services \<Rightarrow> nat \<Rightarrow> nat \<Rightarrow> paper \<Rightarrow> bool \<times> event list" where
  "process_paper cfg svc i n p =
     (case analyze_paper_with_ai cfg svc p of
        (None, out1) \<Rightarrow> (False, Print (ProcessingPaper i n) # out1)
      | (Some analysis, out1) \<Rightarrow>
          if \<not> truthy analysis then (False, Print (ProcessingPaper i n) # out1)
          else (case store_in_supabase cfg svc p analysis of
                  (stored, out2) \<Rightarrow> (stored, Print (ProcessingPaper i n) # out1 @ out2)))"

text \<open>The loop \<^verbatim>\<open>for i, paper in enumerate(papers, 1)\<close> with its two counters; \<open>n\<close> is
  \<^verbatim>\<open>len(papers)\<close>.\<close>

fun process_papers ::
  "config \<Rightarrow> services \<Rightarrow> nat \<Rightarrow> nat \<Rightarrow> paper list \<Rightarrow> nat \<Rightarrow> nat \<Rightarrow> event list \<Rightarrow>
     (nat \<times> nat) \<times> event list" where
  "process_papers cfg svc i n [] successful failed out = ((successful, failed), out)"
| "process_papers cfg svc i n (p # rest) successful failed out =
     (case process_paper cfg svc i n p of
        (True, o1) \<Rightarrow> process_papers cfg svc (i + 1) n rest (successful + 1) failed (out @ o1)
      | (False, o1) \<Rightarrow> process_papers cfg svc (i + 1) n rest successful (failed + 1) (out @ o1))"

text \<open>\<^verbatim>\<open>successful/len(papers)*100\<close>: the division raises on a zero divisor. The value is
  kept exact; the rounding of the float and of its one-decimal print is not modelled.\<close>

definition success_rate :: "nat \<Rightarrow> nat \<Rightarrow> exn + rat" where
  "success_rate successful n =
     (if n = 0 then Inl ZeroDivisionError else Inr (of_nat successful / of_nat n * 100))"

definition main :: "config \<Rightarrow> services \<Rightarrow> outcome \<times> event list" where
  "main cfg svc =
     (case validate_environment cfg of
        (False, out0) \<Rightarrow> (SysExit 1, out0 @ [Print PipelineAborted])
      | (True, out0) \<Rightarrow>
          (case fetch_harvard_papers svc of
             (papers, out1) \<Rightarrow>
               if papers = [] then (Completed, out0 @ out1 @ [Print NoPapers])
               else
                 (case process_papers cfg svc 1 (length papers) papers 0 0 (out0 @ out1) of
                    ((successful, failed), out2) \<Rightarrow>
                      (case success_rate successful (length papers) of
                         Inl e \<Rightarrow>
                           (Uncaught e,
                            out2 @ [Print (SummaryCounts (length papers) successful failed)])
                       | Inr rate \<Rightarrow>
                           (Completed,
                            out2 @ [Print (SummaryCounts (length papers) successful failed),
                                    Print (SuccessRate rate), Print ExecutionComplete])))))"

section \<open>The blob container and the local download folder\<close>

text \<open>
  The two blob scripts work on a container of named blobs; \<^verbatim>\<open>pipeline.py\<close> also keeps
  downloaded files in a local folder. \<open>trace\<close> collects the events of the run. Writing a
  local file is taken to succeed.
\<close>

record world =
  files :: "string \<Rightarrow> bytes option"
  blobs :: "string \<Rightarrow> bytes option"
  trace :: "event list"

definition emit :: "event list \<Rightarrow> world \<Rightarrow> world" where
  "emit evs w = w\<lparr>trace := trace w @ evs\<rparr>"

text \<open>\<^verbatim>\<open>upload_blob(name, data, overwrite)\<close> of the storage SDK: the service may refuse
  the request; without \<^verbatim>\<open>overwrite\<close> an existing name raises ResourceExistsError;
  otherwise the blob of that name is created or replaced.\<close>

definition upload_blob :: "services \<Rightarrow> string \<Rightarrow> bytes \<Rightarrow> bool \<Rightarrow> world \<Rightarrow> exn option \<times> world" where
  "upload_blob svc name data overwrite w =
     (case upload_blob_error svc name of
        Some x \<Rightarrow> (Some x, emit [UploadBlob name data overwrite] w)
      | None \<Rightarrow>
          if \<not> overwrite \<and> blobs w name \<noteq> None
          then (Some ResourceExistsError, emit [UploadBlob name data overwrite] w)
          else (None, emit [UploadBlob name data overwrite] (w\<lparr>blobs := (blobs w)(name \<mapsto> data)\<rparr>)))"

section \<open>pipeline.py\<close>

definition DOWNLOAD_DIR :: string where
  "DOWNLOAD_DIR = ''downloads''"

text \<open>\<^verbatim>\<open>os.path.join(a, b)\<close> on POSIX.\<close>

definition path_join :: "string \<Rightarrow> string \<Rightarrow> string" where
  "path_join a b =
     (if b \<noteq> [] \<and> hd b = CHR ''/'' then b
      else if a = [] \<or> last a = CHR ''/'' then a @ b
      else a @ ''/'' @ b)"

text \<open>Step 4 of the loop body: download unless the local file exists. The request comes
  before the file is opened, so a failed request leaves no file.\<close>

definition download_pdf :: "services \<Rightarrow> string \<Rightarrow> string \<Rightarrow> string \<Rightarrow> world \<Rightarrow> exn option \<times> world" where
  "download_pdf svc ttl lnk pdf_path w =
     (if files w pdf_path = None
      then (case requests_get svc lnk of
              Inl x \<Rightarrow> (Some x, emit [Print (Downloading ttl), HttpGet lnk] w)
            | Inr r \<Rightarrow>
                (None, emit [Print (Downloading ttl), HttpGet lnk]
                         (w\<lparr>files := (files w)(pdf_path \<mapsto> content r)\<rparr>)))
      else (None, emit [Print (AlreadyDownloaded ttl)] w))"

text \<open>The body of \<^verbatim>\<open>for entry in feed.entries\<close>; \<open>Some x\<close> is an exception leaving the
  loop. The response's status code is not read anywhere.\<close>

definition pipeline_entry :: "services \<Rightarrow> entry \<Rightarrow> world \<Rightarrow> exn option \<times> world" where
  "pipeline_entry svc e w =
     (case attr (e_title e) of
        Inl x \<Rightarrow> (Some x, w)
      | Inr t \<Rightarrow>
          (case attr (e_link e) of
             Inl x \<Rightarrow> (Some x, w)
           | Inr lnk \<Rightarrow>
               if \<not> endswith lnk ''.pdf'' then (None, w)
               else
                 (case download_pdf svc (replace_space_slash t) lnk
                         (path_join DOWNLOAD_DIR (replace_space_slash t @ ''.pdf'')) w of
                    (Some x, w1) \<Rightarrow> (Some x, w1)
                  | (None, w1) \<Rightarrow>
                      (case files w1 (path_join DOWNLOAD_DIR (replace_space_slash t @ ''.pdf'')) of
                         None \<Rightarrow> (Some (ServiceError ''FileNotFoundError''), w1)
                       | Some data \<Rightarrow>
                           (case upload_blob svc (replace_space_slash t @ ''.pdf'') data True w1 of
                              (Some x, w2) \<Rightarrow> (Some x, w2)
                            | (None, w2) \<Rightarrow>
                                (None, emit [Print (Uploaded (replace_space_slash t @ ''.pdf''))] w2))))))"

fun pipeline_loop :: "services \<Rightarrow> entry list \<Rightarrow> world \<Rightarrow> exn option \<times> world" where
  "pipeline_loop svc [] w = (None, w)"
| "pipeline_loop svc (e # es) w =
     (case pipeline_entry svc e w of
        (Some x, w1) \<Rightarrow> (Some x, w1)
      | (None, w1) \<Rightarrow> pipeline_loop svc es w1)"

text \<open>The script from top to bottom. \<^verbatim>\<open>os.makedirs\<close> only creates the local folder.\<close>

definition pipeline_run :: "(string \<Rightarrow> string option) \<Rightarrow> services \<Rightarrow> world \<Rightarrow> outcome \<times> world" where
  "pipeline_run environ svc w =
     (case from_connection_string svc (environ ''AZURE_CONNECTION_STRING'') of
        Some x \<Rightarrow> (Uncaught x, w)
      | None \<Rightarrow>
          (case feedparser_parse svc DASH_RSS_FEED of
             Inl x \<Rightarrow> (Uncaught x, emit [FeedParse DASH_RSS_FEED] w)
           | Inr entries \<Rightarrow>
               (case pipeline_loop svc entries
                       (emit [FeedParse DASH_RSS_FEED, Print (FoundEntries (length entries))] w) of
                  (Some x, w1) \<Rightarrow> (Uncaught x, w1)
                | (None, w1) \<Rightarrow> (Completed, emit [Print RunComplete] w1))))"

section \<open>dash\_ingest.py\<close>

definition DASH_FEED_URL :: string where
  "DASH_FEED_URL = ''https://dash.harvard.edu/feed/rss_2.0/1741.1/34902198''"

text \<open>The body of \<^verbatim>\<open>for link in entry.links\<close>. \<^verbatim>\<open>list_blobs()\<close> is asked for every PDF
  link; \<^verbatim>\<open>continue\<close> goes on with the next link.\<close>

definition dash_link :: "services \<Rightarrow> feed_link \<Rightarrow> world \<Rightarrow> exn option \<times> world" where
  "dash_link svc l w =
     (case attr (l_type l) of
        Inl x \<Rightarrow> (Some x, w)
      | Inr ty \<Rightarrow>
          if ty \<noteq> ''application/pdf'' then (None, w)
          else
            (case attr (l_href l) of
               Inl x \<Rightarrow> (Some x, w)
             | Inr pdf_url \<Rightarrow>
                 (case list_blobs_error svc of
                    Some x \<Rightarrow> (Some x, emit [ListBlobs] w)
                  | None \<Rightarrow>
                      if blobs w (last_segment pdf_url) \<noteq> None
                      then (None, emit [ListBlobs, Print (Skipping (last_segment pdf_url))] w)
                      else
                        (case requests_get svc pdf_url of
                           Inl x \<Rightarrow>
                             (Some x, emit [ListBlobs, Print (DownloadingBlob (last_segment pdf_url)),
                                            HttpGet pdf_url] w)
                         | Inr r \<Rightarrow>
                             if status_code r = 200
                             then
                               (case upload_blob svc (last_segment pdf_url) (content r) False
                                       (emit [ListBlobs, Print (DownloadingBlob (last_segment pdf_url)),
                                              HttpGet pdf_url] w) of
                                  (Some x, w1) \<Rightarrow> (Some x, w1)
                                | (None, w1) \<Rightarrow>
                                    (None, emit [Print (UploadedBlob (last_segment pdf_url))] w1))
                             else
                               (None, emit [ListBlobs, Print (DownloadingBlob (last_segment pdf_url)),
                                            HttpGet pdf_url, Print (Failed pdf_url)] w)))))"

fun dash_links :: "services \<Rightarrow> feed_link list \<Rightarrow> world \<Rightarrow> exn option \<times> world" where
  "dash_links svc [] w = (None, w)"
| "dash_links svc (l # ls) w =
     (case dash_link svc l w of
        (Some x, w1) \<Rightarrow> (Some x, w1)
      | (None, w1) \<Rightarrow> dash_links svc ls w1)"

fun dash_entries :: "services \<Rightarrow> entry list \<Rightarrow> world \<Rightarrow> exn option \<times> world" where
  "dash_entries svc [] w = (None, w)"
| "dash_entries svc (e # es) w =
     (case attr (e_links e) of
        Inl x \<Rightarrow> (Some x, w)
      | Inr ls \<Rightarrow>
          (case dash_links svc ls w of
             (Some x, w1) \<Rightarrow> (Some x, w1)
           | (None, w1) \<Rightarrow> dash_entries svc es w1))"

text \<open>The script from top to bottom; \<^verbatim>\<open>os.environ[...]\<close> raises KeyError on a missing
  variable.\<close>

definition dash_ingest_run :: "(string \<Rightarrow> string option) \<Rightarrow> services \<Rightarrow> world \<Rightarrow> outcome \<times> world" where
  "dash_ingest_run environ svc w =
     (case environ ''AZURE_STORAGE_CONN_STRING'' of
        None \<Rightarrow> (Uncaught KeyError, w)
      | Some conn_str \<Rightarrow>
          (case from_connection_string svc (Some conn_str) of
             Some x \<Rightarrow> (Uncaught x, w)
           | None \<Rightarrow>
               (case feedparser_parse svc DASH_FEED_URL of
                  Inl x \<Rightarrow> (Uncaught x, emit [FeedParse DASH_FEED_URL] w)
                | Inr entries \<Rightarrow>
                    (case dash_entries svc entries (emit [FeedParse DASH_FEED_URL] w) of
                       (Some x, w1) \<Rightarrow> (Uncaught x, w1)
                     | (None, w1) \<Rightarrow> (Completed, w1)))))"

section \<open>Reading a trace, and sample inputs\<close>

text \<open>The papers handed to \<^verbatim>\<open>analyze_paper_with_ai\<close>, read off its first \<^verbatim>\<open>print\<close>
  (the title cut to 60 characters), in the order of the calls.\<close>

fun analyzing_titles :: "event list \<Rightarrow> string list" where
  "analyzing_titles [] = []"
| "analyzing_titles (Print (Analyzing t) # es) = t # analyzing_titles es"
| "analyzing_titles (e # es) = analyzing_titles es"

text \<open>A paper is processed successfully when its analysis returns a truthy object and
  storing it returns True; every other paper is a failed one.\<close>

definition paper_ok :: "config \<Rightarrow> services \<Rightarrow> paper \<Rightarrow> bool" where
  "paper_ok cfg svc p =
     (case fst (analyze_paper_with_ai cfg svc p) of
        None \<Rightarrow> False
      | Some analysis \<Rightarrow> truthy analysis \<and> fst (store_in_supabase cfg svc p analysis))"

fun is_summary :: "event \<Rightarrow> bool" where
  "is_summary (Print (SummaryCounts n s f)) = True"
| "is_summary _ = False"


text \<open>The blob names of the uploads and the URLs of the downloads in a trace.\<close>

fun uploaded_names :: "event list \<Rightarrow> string list" where
  "uploaded_names [] = []"
| "uploaded_names (UploadBlob name data overwrite # es) = name # uploaded_names es"
| "uploaded_names (e # es) = uploaded_names es"

fun fetched_urls :: "event list \<Rightarrow> string list" where
  "fetched_urls [] = []"
| "fetched_urls (HttpGet url # es) = url # fetched_urls es"
| "fetched_urls (e # es) = fetched_urls es"

text \<open>The items \<^verbatim>\<open>dash_ingest.py\<close> can store: PDF links whose download answers 200, by
  the file name the blob gets.\<close>

definition link_eligible :: "services \<Rightarrow> feed_link \<Rightarrow> bool" where
  "link_eligible svc l =
     (case (l_type l, l_href l) of
        (Some ty, Some url) \<Rightarrow>
          ty = ''application/pdf'' \<and>
          (case requests_get svc url of Inl x \<Rightarrow> False | Inr r \<Rightarrow> status_code r = 200)
      | _ \<Rightarrow> False)"

definition eligible_links :: "services \<Rightarrow> feed_link list \<Rightarrow> string list" where
  "eligible_links svc ls =
     map (\<lambda>l. last_segment (get_or (l_href l) [])) (filter (link_eligible svc) ls)"

definition eligible_names :: "services \<Rightarrow> entry list \<Rightarrow> string list" where
  "eligible_names svc es = concat (map (\<lambda>e. eligible_links svc (get_or (e_links e) [])) es)"

text \<open>A step from world \<open>t\<close> that raises nothing, changes only the trace, uploads
  nothing, and downloads only files whose name is not in the container.\<close>

definition quiet_replay :: "world \<Rightarrow> exn option \<times> world \<Rightarrow> bool" where
  "quiet_replay t r =
     (\<exists>evs. r = (None, emit evs t) \<and> uploaded_names evs = [] \<and>
            (\<forall>u \<in> set (fetched_urls evs). blobs t (last_segment u) = None))"

text \<open>Entries without a PDF link: for \<^verbatim>\<open>pipeline.py\<close>, a title and a link that does not
  end in \<^verbatim>\<open>.pdf\<close>; for \<^verbatim>\<open>dash_ingest.py\<close>, links that all have a type other than
  \<^verbatim>\<open>application/pdf\<close>.\<close>

definition not_pdf_entry :: "entry \<Rightarrow> bool" where
  "not_pdf_entry e =
     (case (e_title e, e_link e) of
        (Some t, Some lnk) \<Rightarrow> \<not> endswith lnk ''.pdf''
      | _ \<Rightarrow> False)"

definition no_pdf_links :: "entry \<Rightarrow> bool" where
  "no_pdf_links e =
     (case e_links e of
        Some ls \<Rightarrow>
          list_all (\<lambda>l. case l_type l of Some ty \<Rightarrow> ty \<noteq> ''application/pdf'' | None \<Rightarrow> False) ls
      | None \<Rightarrow> False)"

text \<open>
  Sample inputs. \<open>sample_services\<close> is a set of stand-ins that never fail: an empty feed,
  a completion that answers in plain prose, downloads that answer 200. Its \<open>json_loads\<close>
  rejects every text; it is only ever given texts that are not JSON. The variations
  below replace single fields.
\<close>

definition conn_env :: "string \<Rightarrow> string option" where
  "conn_env k =
     (if k = ''AZURE_CONNECTION_STRING'' \<or> k = ''AZURE_STORAGE_CONN_STRING''
      then Some ''UseDevelopmentStorage=true'' else None)"

definition sample_config :: config where
  "sample_config =
     \<lparr> AZURE_AI_ENDPOINT = Some ''https://ai.example'',
       AZURE_AI_KEY = Some ''key'',
       SUPABASE_URL = Some ''https://db.example'',
       SUPABASE_KEY = Some ''secret'' \<rparr>"

definition sample_services :: services where
  "sample_services =
     \<lparr> feedparser_parse = (\<lambda>url. Inr []),
       openai_client = (\<lambda>key base_url. None),
       chat_completions_create = (\<lambda>base_url text. Inr ''A study of tides.''),
       json_loads = (\<lambda>text. Inl JSONDecodeError),
       json_dumps = (\<lambda>obj. ''[]''),
       utcnow_isoformat = ''2025-01-01T00:00:00'',
       create_client = (\<lambda>url key. None),
       upsert_execute = (\<lambda>row. Inr True),
       from_connection_string = (\<lambda>conn_str. None),
       requests_get = (\<lambda>url. Inr \<lparr>status_code = 200, content = ''%PDF''\<rparr>),
       list_blobs_error = None,
       upload_blob_error = (\<lambda>name. None) \<rparr>"

definition empty_world :: world where
  "empty_world = \<lparr> files = Map.empty, blobs = Map.empty, trace = [] \<rparr>"

definition feed_entry :: "string \<Rightarrow> string \<Rightarrow> string \<Rightarrow> entry" where
  "feed_entry t url ty =
     \<lparr> e_title = Some t, e_link = Some url, e_summary = Some ''About tides.'',
       e_published = None, e_author = None, e_id = None,
       e_links = Some [\<lparr>l_type = Some ty, l_href = Some url\<rparr>] \<rparr>"

definition sample_pdf_feed :: "entry list" where
  "sample_pdf_feed =
     [feed_entry ''Paper A'' ''https://dash.example/a.pdf'' ''application/pdf'',
      feed_entry ''Paper B'' ''https://dash.example/b.pdf'' ''application/pdf'',
      feed_entry ''Notes'' ''https://dash.example/notes.html'' ''text/html'']"

definition eleven_titles :: "string list" where
  "eleven_titles = [''a'', ''b'', ''c'', ''d'', ''e'', ''f'', ''g'', ''h'', ''i'', ''j'', ''k'']"

definition eleven_entries :: "entry list" where
  "eleven_entries =
     map (\<lambda>t. feed_entry t (''https://dash.example/'' @ t @ ''.pdf'') ''application/pdf'')
       eleven_titles"

definition two_paper_services :: services where
  "two_paper_services =
     sample_services\<lparr>
       feedparser_parse :=
         (\<lambda>url. Inr [feed_entry ''Paper A'' ''https://dash.example/a.pdf'' ''application/pdf'',
                     feed_entry ''Paper B'' ''https://dash.example/b.pdf'' ''application/pdf'']),
       upsert_execute :=
         (\<lambda>row. if paper_id row = ''https://dash.example/a.pdf''
                 then Inl (ServiceError ''timeout'') else Inr True)\<rparr>"


definition long_row :: db_row where
  "long_row =
     \<lparr> paper_id = ''https://dash.example/a.pdf'',
       title = ''Paper A'',
       authors = ''Unknown'',
       published_date = '''',
       link = ''https://dash.example/a.pdf'',
       summary = replicate 500 CHR ''x'',
       ai_topic = JStr ''Academic Research'',
       ai_findings = ''[]'',
       ai_methodology = JStr ''See summary'',
       ai_significance = JStr ''A study of tides.'',
       ai_keywords = ''[]'',
       processed_at = ''2025-01-01T00:00:00'',
       source = ''Harvard DASH'',
       metadata = ''[]'' \<rparr>"

definition dash_sample_services :: services where
  "dash_sample_services =
     sample_services\<lparr>
       feedparser_parse := (\<lambda>url. Inr sample_pdf_feed),
       requests_get :=
         (\<lambda>url. if url = ''https://dash.example/b.pdf''
                 then Inr \<lparr>status_code = 404, content = ''Not Found''\<rparr>
                 else Inr \<lparr>status_code = 200, content = ''%PDF''\<rparr>)\<rparr>"

definition dash_first_world :: world where
  "dash_first_world =
     \<lparr> files = Map.empty,
       blobs = [''a.pdf'' \<mapsto> ''%PDF''],
       trace = [FeedParse DASH_FEED_URL,
                ListBlobs, Print (DownloadingBlob ''a.pdf''), HttpGet ''https://dash.example/a.pdf'',
                UploadBlob ''a.pdf'' ''%PDF'' False, Print (UploadedBlob ''a.pdf''),
                ListBlobs, Print (DownloadingBlob ''b.pdf''), HttpGet ''https://dash.example/b.pdf'',
                Print (Failed ''https://dash.example/b.pdf'')] \<rparr>"

definition eleven_services :: services where
  "eleven_services = sample_services\<lparr>feedparser_parse := (\<lambda>url. Inr eleven_entries)\<rparr>"


section \<open>Properties of the scripts\<close>

text \<open>\<^verbatim>\<open>strip\<close> removes next line and no-break space at both ends, as \<^verbatim>\<open>str.strip()\<close>
  does, and nothing inside the text.\<close>

lemma strip_examples:
  "strip (CHR 0xA0 # ''{}'') = ''{}''"
  "strip (CHR 0xA0 # ''A study.'' @ [CHR 0x85]) = ''A study.''"
  "strip ('' A'' @ [CHR 0xA0] @ ''study. '' @ [CHR 0x0A]) = ''A'' @ [CHR 0xA0] @ ''study.''"
  "strip [CHR 0x20, CHR 0x09, CHR 0x85, CHR 0xA0] = []"
  by (simp_all add: strip_def is_space_def)

lemma analyzing_titles_append [simp]:
  "analyzing_titles (xs @ ys) = analyzing_titles xs @ analyzing_titles ys"
  by (induction xs rule: analyzing_titles.induct) auto

lemma analyzing_titles_analyze:
  "analyzing_titles (snd (analyze_paper_with_ai cfg svc p)) = [take 60 (p_title p)]"
  by (auto simp: analyze_paper_with_ai_def attr_def Let_def
           split: option.splits sum.splits exn.splits)

lemma analyzing_titles_store:
  "analyzing_titles (snd (store_in_supabase cfg svc p a)) = []"
  by (auto simp: store_in_supabase_def split: option.splits sum.splits)

lemma process_paper_ok: "fst (process_paper cfg svc i n p) = paper_ok cfg svc p"
  by (auto simp: process_paper_def paper_ok_def split: prod.splits option.splits)

lemma process_paper_titles:
  "analyzing_titles (snd (process_paper cfg svc i n p)) = [take 60 (p_title p)]"
proof -
  obtain a o1 where an: "analyze_paper_with_ai cfg svc p = (a, o1)"
    by (cases "analyze_paper_with_ai cfg svc p")
  have t1: "analyzing_titles o1 = [take 60 (p_title p)]"
    using analyzing_titles_analyze [of cfg svc p] an by simp
  show ?thesis
  proof (cases a)
    case None
    with an t1 show ?thesis by (simp add: process_paper_def)
  next
    case (Some analysis)
    obtain b o2 where st: "store_in_supabase cfg svc p analysis = (b, o2)"
      by (cases "store_in_supabase cfg svc p analysis")
    have t2: "analyzing_titles o2 = []"
      using analyzing_titles_store [of cfg svc p analysis] st by simp
    from an Some st t1 t2 show ?thesis by (simp add: process_paper_def)
  qed
qed

lemma process_papers_counts:
  "process_papers cfg svc i n ps s f out = ((s', f'), out') \<Longrightarrow>
     s' = s + length (filter (paper_ok cfg svc) ps) \<and>
     f' = f + length (filter (\<lambda>p. \<not> paper_ok cfg svc p) ps) \<and>
     analyzing_titles out' = analyzing_titles out @ map (\<lambda>p. take 60 (p_title p)) ps"
proof (induction ps arbitrary: i s f out)
  case Nil
  then show ?case by simp
next
  case (Cons p ps)
  obtain b o1 where pp: "process_paper cfg svc i n p = (b, o1)"
    by (cases "process_paper cfg svc i n p")
  have b: "b = paper_ok cfg svc p"
    using process_paper_ok [of cfg svc i n p] pp by simp
  have t: "analyzing_titles o1 = [take 60 (p_title p)]"
    using process_paper_titles [of cfg svc i n p] pp by simp
  show ?case
  proof (cases b)
    case True
    with Cons.prems pp
    have "process_papers cfg svc (i + 1) n ps (s + 1) f (out @ o1) = ((s', f'), out')"
      by simp
    from Cons.IH [OF this] b True t show ?thesis by simp
  next
    case False
    with Cons.prems pp
    have "process_papers cfg svc (i + 1) n ps s (f + 1) (out @ o1) = ((s', f'), out')"
      by simp
    from Cons.IH [OF this] b False t show ?thesis by simp
  qed
qed

lemma process_papers_events:
  "process_papers cfg svc i n ps s f out = (r, out') \<Longrightarrow>
   (\<And>p j. p \<in> set ps \<Longrightarrow> list_all Q (snd (process_paper cfg svc j n p))) \<Longrightarrow>
   list_all Q out \<Longrightarrow> list_all Q out'"
proof (induction ps arbitrary: i s f out)
  case Nil
  then show ?case by simp
next
  case (Cons p ps)
  obtain b o1 where pp: "process_paper cfg svc i n p = (b, o1)"
    by (cases "process_paper cfg svc i n p")
  have q1: "list_all Q o1"
    using Cons.prems(2) [of p i] pp by simp
  have q: "list_all Q (out @ o1)"
    using Cons.prems(3) q1 by simp
  have rest: "\<And>p' j. p' \<in> set ps \<Longrightarrow> list_all Q (snd (process_paper cfg svc j n p'))"
    using Cons.prems(2) by simp
  show ?case
  proof (cases b)
    case True
    with Cons.prems(1) pp
    have "process_papers cfg svc (i + 1) n ps (s + 1) f (out @ o1) = (r, out')" by simp
    from Cons.IH [OF this rest q] show ?thesis .
  next
    case False
    with Cons.prems(1) pp
    have "process_papers cfg svc (i + 1) n ps s (f + 1) (out @ o1) = (r, out')" by simp
    from Cons.IH [OF this rest q] show ?thesis .
  qed
qed

lemma analyze_no_summary:
  "list_all (\<lambda>ev. \<not> is_summary ev) (snd (analyze_paper_with_ai cfg svc p))"
  by (auto simp: analyze_paper_with_ai_def attr_def Let_def
           split: option.splits sum.splits exn.splits)

lemma store_no_summary:
  "list_all (\<lambda>ev. \<not> is_summary ev) (snd (store_in_supabase cfg svc p a))"
  by (auto simp: store_in_supabase_def split: option.splits sum.splits)

lemma process_paper_no_summary:
  "list_all (\<lambda>ev. \<not> is_summary ev) (snd (process_paper cfg svc i n p))"
proof -
  obtain a o1 where an: "analyze_paper_with_ai cfg svc p = (a, o1)"
    by (cases "analyze_paper_with_ai cfg svc p")
  have t1: "list_all (\<lambda>ev. \<not> is_summary ev) o1"
    using analyze_no_summary [of cfg svc p] an by simp
  show ?thesis
  proof (cases a)
    case None
    with an t1 show ?thesis by (simp add: process_paper_def)
  next
    case (Some analysis)
    obtain b o2 where st: "store_in_supabase cfg svc p analysis = (b, o2)"
      by (cases "store_in_supabase cfg svc p analysis")
    have t2: "list_all (\<lambda>ev. \<not> is_summary ev) o2"
      using store_no_summary [of cfg svc p analysis] st by simp
    from an Some st t1 t2 show ?thesis by (simp add: process_paper_def)
  qed
qed

lemma fetch_no_summary:
  "list_all (\<lambda>ev. \<not> is_summary ev) (snd (fetch_harvard_papers svc))"
  by (auto simp: fetch_harvard_papers_def split: sum.splits)

lemma counts_sum:
  "length (filter P xs) + length (filter (\<lambda>x. \<not> P x) xs) = length xs"
  by (induction xs) auto

lemma summary_counts_add_up:
  "Print (SummaryCounts n s f) \<in> set (snd (main cfg svc)) \<Longrightarrow>
     s + f = n \<and> 0 < n \<and>
     (\<exists>rate. success_rate s n = Inr rate) \<and>
     (\<forall>out. main cfg svc \<noteq> (Uncaught ZeroDivisionError, out))"
proof -
  assume ev: "Print (SummaryCounts n s f) \<in> set (snd (main cfg svc))"
  obtain papers out1 where fe: "fetch_harvard_papers svc = (papers, out1)"
    by (cases "fetch_harvard_papers svc")
  have q1: "list_all (\<lambda>ev. \<not> is_summary ev) out1"
    using fetch_no_summary [of svc] fe by simp
  show ?thesis
  proof (cases "missing cfg = []")
    case False
    with ev show ?thesis by (simp add: main_def validate_environment_def)
  next
    case valid: True
    show ?thesis
    proof (cases "papers = []")
      case True
      with ev valid fe q1 show ?thesis
        by (auto simp: main_def validate_environment_def list_all_iff)
    next
      case nonempty: False
      obtain s' f' out2 where
        lp: "process_papers cfg svc 1 (length papers) papers 0 0 ([Print EnvValidated] @ out1)
               = ((s', f'), out2)"
        by (metis surj_pair)
      have q2: "list_all (\<lambda>ev. \<not> is_summary ev) out2"
        using process_papers_events [OF lp, of "\<lambda>ev. \<not> is_summary ev"]
          process_paper_no_summary q1 by simp
      from process_papers_counts [OF lp]
      have cnt: "s' + f' = length papers"
        using counts_sum [of "paper_ok cfg svc" papers] by simp
      have sr: "success_rate s' (length papers) =
                  Inr (of_nat s' / of_nat (length papers) * 100)"
        using nonempty by (simp add: success_rate_def)
      have m: "main cfg svc =
                (Completed, out2 @ [Print (SummaryCounts (length papers) s' f'),
                   Print (SuccessRate (of_nat s' / of_nat (length papers) * 100)),
                   Print ExecutionComplete])"
        using valid fe nonempty lp sr by (simp add: main_def validate_environment_def)
      from ev m q2 have "n = length papers \<and> s = s' \<and> f = f'"
        by (auto simp: list_all_iff)
      with cnt nonempty sr m show ?thesis by auto
    qed
  qed
qed

lemma main_missing:
  "missing cfg \<noteq> [] \<Longrightarrow>
     main cfg svc = (SysExit 1, [Print (MissingEnv (missing cfg)), Print PipelineAborted])"
  by (simp add: main_def validate_environment_def)

lemma main_no_papers:
  "missing cfg = [] \<Longrightarrow> fetch_harvard_papers svc = ([], out1) \<Longrightarrow>
     main cfg svc = (Completed, Print EnvValidated # out1 @ [Print NoPapers])"
  by (simp add: main_def validate_environment_def)

lemma main_papers:
  "missing cfg = [] \<Longrightarrow> fetch_harvard_papers svc = (papers, out1) \<Longrightarrow> papers \<noteq> [] \<Longrightarrow>
   process_papers cfg svc 1 (length papers) papers 0 0 (Print EnvValidated # out1)
     = ((s, f), out2) \<Longrightarrow>
     main cfg svc =
       (Completed, out2 @ [Print (SummaryCounts (length papers) s f),
          Print (SuccessRate (of_nat s / of_nat (length papers) * 100)),
          Print ExecutionComplete])"
  by (simp add: main_def validate_environment_def success_rate_def)

lemma main_outcome:
  "fst (main cfg svc) = (if missing cfg \<noteq> [] then SysExit 1 else Completed)"
proof (cases "missing cfg = []")
  case False
  then show ?thesis by (simp add: main_missing)
next
  case valid: True
  obtain papers out1 where fe: "fetch_harvard_papers svc = (papers, out1)"
    by (cases "fetch_harvard_papers svc")
  show ?thesis
  proof (cases "papers = []")
    case True
    with valid fe show ?thesis by (simp add: main_no_papers)
  next
    case False
    obtain s f out2 where
      "process_papers cfg svc 1 (length papers) papers 0 0 (Print EnvValidated # out1)
         = ((s, f), out2)"
      by (metis surj_pair)
    from main_papers [OF valid fe False this] valid show ?thesis by simp
  qed
qed

lemma analyzing_titles_fetch:
  "analyzing_titles (snd (fetch_harvard_papers svc)) = []"
  by (auto simp: fetch_harvard_papers_def split: sum.splits)

text \<open>
  Claim C2 (failure isolation), as amended to the database script \<^verbatim>\<open>ingest_harvard.py\<close>.
  With the configuration present and a non-empty list of fetched papers, the run
  completes whatever the analysis and the storage of any paper do: every paper is handed
  to the analysis, in feed order, and the summary reports as successful the papers whose
  analysis and storage both succeeded and as failed all the others.
\<close>

theorem failure_isolation:
  assumes valid: "missing cfg = []"
    and papers: "fst (fetch_harvard_papers svc) = papers"
    and nonempty: "papers \<noteq> []"
  shows "fst (main cfg svc) = Completed \<and>
         analyzing_titles (snd (main cfg svc)) = map (\<lambda>p. take 60 (p_title p)) papers \<and>
         Print (SummaryCounts (length papers)
                  (length (filter (paper_ok cfg svc) papers))
                  (length (filter (\<lambda>p. \<not> paper_ok cfg svc p) papers)))
           \<in> set (snd (main cfg svc))"
proof -
  obtain out1 where fe: "fetch_harvard_papers svc = (papers, out1)"
    using papers by (cases "fetch_harvard_papers svc") simp
  have t1: "analyzing_titles out1 = []"
    using analyzing_titles_fetch [of svc] fe by simp
  obtain s f out2 where
    lp: "process_papers cfg svc 1 (length papers) papers 0 0 (Print EnvValidated # out1)
           = ((s, f), out2)"
    by (metis surj_pair)
  note m = main_papers [OF valid fe nonempty lp]
  from process_papers_counts [OF lp] t1
  have "s = length (filter (paper_ok cfg svc) papers)"
    and "f = length (filter (\<lambda>p. \<not> paper_ok cfg svc p) papers)"
    and "analyzing_titles out2 = map (\<lambda>p. take 60 (p_title p)) papers"
    by simp_all
  with m show ?thesis by simp
qed

text \<open>
  Claim C8 (feed failure is not fatal), for \<^verbatim>\<open>ingest_harvard.py\<close>. With the configuration
  present, when the feed parser raises or returns no entries, the run completes with
  exit code 0, the only request sent is the one to the feed, and no paper is analysed.
\<close>

theorem feed_failure_is_graceful:
  assumes valid: "missing cfg = []"
    and feed: "case feedparser_parse svc DASH_RSS_FEED of Inl e \<Rightarrow> True | Inr entries \<Rightarrow> entries = []"
  shows "fst (main cfg svc) = Completed \<and> exit_code (fst (main cfg svc)) = 0 \<and>
         filter is_call (snd (main cfg svc)) = [FeedParse DASH_RSS_FEED] \<and>
         analyzing_titles (snd (main cfg svc)) = []"
proof -
  from feed obtain out1 where fe: "fetch_harvard_papers svc = ([], out1)"
    and c: "filter is_call out1 = [FeedParse DASH_RSS_FEED]"
    and t: "analyzing_titles out1 = []"
    by (auto simp: fetch_harvard_papers_def split: sum.splits)
  from main_no_papers [OF valid fe] c t show ?thesis by simp
qed

lemma process_papers_extends:
  "process_papers cfg svc i n ps s f out = (r, out') \<Longrightarrow> set out \<subseteq> set out'"
proof (induction ps arbitrary: i s f out)
  case Nil
  then show ?case by simp
next
  case (Cons p ps)
  obtain b o1 where pp: "process_paper cfg svc i n p = (b, o1)"
    by (cases "process_paper cfg svc i n p")
  show ?case
  proof (cases b)
    case True
    with Cons.prems pp
    have "process_papers cfg svc (i + 1) n ps (s + 1) f (out @ o1) = (r, out')" by simp
    from Cons.IH [OF this] show ?thesis by simp
  next
    case False
    with Cons.prems pp
    have "process_papers cfg svc (i + 1) n ps s (f + 1) (out @ o1) = (r, out')" by simp
    from Cons.IH [OF this] show ?thesis by simp
  qed
qed

text \<open>
  Claim C5 (batch bound), as amended to \<^verbatim>\<open>ingest_harvard.py\<close>. When the feed has more
  than \<^verbatim>\<open>MAX_PAPERS_PER_RUN\<close> entries, the fetched papers are the first
  \<^verbatim>\<open>MAX_PAPERS_PER_RUN\<close> entries in feed order, ten of them, and the run analyses exactly
  those, in that order.
\<close>

theorem batch_bound:
  assumes valid: "missing cfg = []"
    and feed: "feedparser_parse svc DASH_RSS_FEED = Inr entries"
    and more: "MAX_PAPERS_PER_RUN < length entries"
  shows "fst (fetch_harvard_papers svc) = map paper_of_entry (take MAX_PAPERS_PER_RUN entries) \<and>
         length (fst (fetch_harvard_papers svc)) = MAX_PAPERS_PER_RUN \<and>
         analyzing_titles (snd (main cfg svc)) =
           map (\<lambda>e. take 60 (p_title (paper_of_entry e))) (take MAX_PAPERS_PER_RUN entries) \<and>
         Print (FetchedPapers MAX_PAPERS_PER_RUN) \<in> set (snd (main cfg svc))"
proof -
  let ?papers = "map paper_of_entry (take MAX_PAPERS_PER_RUN entries)"
  from more have ne: "entries \<noteq> []" by auto
  have len: "length ?papers = MAX_PAPERS_PER_RUN" using more by simp
  have fe: "fetch_harvard_papers svc =
              (?papers, [Print FetchingPapers, FeedParse DASH_RSS_FEED,
                         Print (FetchedPapers MAX_PAPERS_PER_RUN)])"
    using feed ne len by (simp add: fetch_harvard_papers_def)
  have nonempty: "?papers \<noteq> []"
    using len by (auto simp: MAX_PAPERS_PER_RUN_def)
  obtain s f out2 where
    lp: "process_papers cfg svc 1 (length ?papers) ?papers 0 0
           (Print EnvValidated # [Print FetchingPapers, FeedParse DASH_RSS_FEED,
                         Print (FetchedPapers MAX_PAPERS_PER_RUN)])
           = ((s, f), out2)"
    by (metis surj_pair)
  note m = main_papers [OF valid fe nonempty lp]
  have sub: "Print (FetchedPapers MAX_PAPERS_PER_RUN) \<in> set out2"
    using process_papers_extends [OF lp] by auto
  from process_papers_counts [OF lp]
  have "analyzing_titles out2 = map (\<lambda>p. take 60 (p_title p)) ?papers"
    by simp
  with m fe len sub show ?thesis by (simp add: comp_def)
qed








lemma row_data_default:
  "\<exists>data. row_data svc p (default_analysis t) = Inr data"
  by (simp add: row_data_def default_analysis_def)

text \<open>A reply that parses is not replaced: the empty object \<^verbatim>\<open>{}\<close>, also when no-break
  spaces or line ends surround it, is returned as it is, and being falsy it counts the
  paper as failed.\<close>

lemma empty_object_reply_fails_paper:
  assumes "AZURE_AI_ENDPOINT cfg = Some endpoint"
    and "openai_client svc (AZURE_AI_KEY cfg)
           (if endswith endpoint ''/v1'' then endpoint else endpoint @ ''/v1'') = None"
    and "chat_completions_create svc
           (if endswith endpoint ''/v1'' then endpoint else endpoint @ ''/v1'')
           (text_to_analyze p) = Inr message_content"
    and "json_loads svc (strip message_content) = Inr (JDict [])"
  shows "fst (analyze_paper_with_ai cfg svc p) = Some (JDict [])"
    and "\<not> fst (process_paper cfg svc i n p)"
  using assms
  by (simp_all add: analyze_paper_with_ai_def process_paper_def attr_def Let_def)

text \<open>
  Claim C4 (default substitution), as amended. When the endpoint is configured, the
  client is built, the completion call returns a text and \<^verbatim>\<open>json.loads\<close> rejects the
  stripped text, the analysis does not fail: it returns the default dictionary, whose
  topic is \<^verbatim>\<open>Academic Research\<close>, whose findings are the one-element list of the text's
  first 200 characters, whose significance is the text's first 300 characters (so
  non-empty exactly when the text is) and whose keywords are three words. The paper then
  goes on to storage: it succeeds exactly when storing succeeds, and when the database
  client is built the upsert of its row is sent.
\<close>

theorem default_substitution:
  assumes endpoint: "AZURE_AI_ENDPOINT cfg = Some endpoint"
    and client: "openai_client svc (AZURE_AI_KEY cfg)
                   (if endswith endpoint ''/v1'' then endpoint else endpoint @ ''/v1'') = None"
    and reply: "chat_completions_create svc
                   (if endswith endpoint ''/v1'' then endpoint else endpoint @ ''/v1'')
                   (text_to_analyze p) = Inr message_content"
    and invalid: "json_loads svc (strip message_content) = Inl JSONDecodeError"
  shows "fst (analyze_paper_with_ai cfg svc p) = Some (default_analysis (strip message_content)) \<and>
         dict_get (default_analysis (strip message_content)) ''topic'' d
           = Inr (JStr ''Academic Research'') \<and>
         dict_get (default_analysis (strip message_content)) ''findings'' d
           = Inr (JList [JStr (take 200 (strip message_content))]) \<and>
         dict_get (default_analysis (strip message_content)) ''significance'' d
           = Inr (JStr (take 300 (strip message_content))) \<and>
         dict_get (default_analysis (strip message_content)) ''keywords'' d
           = Inr (JList [JStr ''research'', JStr ''Harvard'', JStr ''academic'']) \<and>
         fst (process_paper cfg svc i n p)
           = fst (store_in_supabase cfg svc p (default_analysis (strip message_content))) \<and>
         (create_client svc (SUPABASE_URL cfg) (SUPABASE_KEY cfg) = None \<longrightarrow>
            (\<exists>data. row_data svc p (default_analysis (strip message_content)) = Inr data \<and>
               UpsertCall data \<in> set (snd (process_paper cfg svc i n p)) \<and>
               fst (process_paper cfg svc i n p) = (upsert_execute svc data = Inr True)))"
proof -
  let ?a = "default_analysis (strip message_content)"
  have an: "analyze_paper_with_ai cfg svc p =
          (Some ?a, [Print (Analyzing (take 60 (p_title p))),
             ChatCall (if endswith endpoint ''/v1'' then endpoint else endpoint @ ''/v1'')
               (text_to_analyze p),
             Print AnalysisCompleted, Print (Topic (JStr ''Academic Research''))])"
    using endpoint client reply invalid
    by (simp add: analyze_paper_with_ai_def attr_def Let_def default_analysis_def)
  have tr: "truthy ?a" by (simp add: default_analysis_def)
  have pp: "fst (process_paper cfg svc i n p) = fst (store_in_supabase cfg svc p ?a)"
    and ev: "set (snd (store_in_supabase cfg svc p ?a)) \<subseteq> set (snd (process_paper cfg svc i n p))"
    using an tr by (auto simp: process_paper_def split: prod.splits)
  obtain data where rd: "row_data svc p ?a = Inr data"
    using row_data_default by blast
  have st: "create_client svc (SUPABASE_URL cfg) (SUPABASE_KEY cfg) = None \<Longrightarrow>
          UpsertCall data \<in> set (snd (store_in_supabase cfg svc p ?a)) \<and>
          fst (store_in_supabase cfg svc p ?a) = (upsert_execute svc data = Inr True)"
    using rd by (auto simp: store_in_supabase_def split: sum.splits)
  show ?thesis
    using an pp ev rd st by (auto simp: default_analysis_def)
qed

text \<open>
  Claim C3 (configuration check), as amended. In \<^verbatim>\<open>ingest_harvard.py\<close> a required setting
  that is unset or empty ends the run with exit code 1 before any request is sent, and
  the exit code is non-zero in that case only. In \<^verbatim>\<open>dash_ingest.py\<close> an unset connection
  string raises KeyError, and in \<^verbatim>\<open>pipeline.py\<close> an unset connection string that the
  storage client refuses raises the client's exception; both end the process with exit
  code 1 before the feed is read, the world unchanged.
\<close>

theorem configuration_check:
  "(missing cfg \<noteq> [] \<longrightarrow>
      fst (main cfg svc) = SysExit 1 \<and> filter is_call (snd (main cfg svc)) = []) \<and>
   (exit_code (fst (main cfg svc)) \<noteq> 0 \<longleftrightarrow> missing cfg \<noteq> []) \<and>
   (missing cfg \<noteq> [] \<longleftrightarrow> list_ex not_value
      [AZURE_AI_ENDPOINT cfg, AZURE_AI_KEY cfg, SUPABASE_URL cfg, SUPABASE_KEY cfg]) \<and>
   (environ ''AZURE_STORAGE_CONN_STRING'' = None \<longrightarrow>
      dash_ingest_run environ svc w = (Uncaught KeyError, w) \<and>
      exit_code (fst (dash_ingest_run environ svc w)) = 1) \<and>
   (environ ''AZURE_CONNECTION_STRING'' = None \<and> from_connection_string svc None = Some x \<longrightarrow>
      pipeline_run environ svc w = (Uncaught x, w) \<and>
      exit_code (fst (pipeline_run environ svc w)) = 1)"
proof (intro conjI impI)
  show "exit_code (fst (main cfg svc)) \<noteq> 0 \<longleftrightarrow> missing cfg \<noteq> []"
    by (simp add: main_outcome)
  show "missing cfg \<noteq> [] \<longleftrightarrow> list_ex not_value
      [AZURE_AI_ENDPOINT cfg, AZURE_AI_KEY cfg, SUPABASE_URL cfg, SUPABASE_KEY cfg]"
    by (auto simp: missing_def required_def)
qed (simp_all add: main_missing dash_ingest_run_def pipeline_run_def)

lemma uploaded_names_append [simp]:
  "uploaded_names (xs @ ys) = uploaded_names xs @ uploaded_names ys"
  by (induction xs rule: uploaded_names.induct) auto

lemma fetched_urls_append [simp]:
  "fetched_urls (xs @ ys) = fetched_urls xs @ fetched_urls ys"
  by (induction xs rule: fetched_urls.induct) auto

lemma emit_Nil [simp]: "emit [] w = w"
  by (simp add: emit_def)

lemma emit_emit [simp]: "emit ys (emit xs w) = emit (xs @ ys) w"
  by (simp add: emit_def)

lemma emit_fields [simp]:
  "blobs (emit evs w) = blobs w" "files (emit evs w) = files w"
  "trace (emit evs w) = trace w @ evs"
  by (simp_all add: emit_def)

lemma quiet_replay_refl: "quiet_replay t (None, t)"
  unfolding quiet_replay_def by (rule exI [of _ "[]"]) simp

lemma quiet_replay_trans:
  assumes "quiet_replay t (None, t1)" and "quiet_replay t1 r"
  shows "quiet_replay t r"
proof -
  from assms(1) obtain e1 where 1: "t1 = emit e1 t" "uploaded_names e1 = []"
    "\<forall>u \<in> set (fetched_urls e1). blobs t (last_segment u) = None"
    by (auto simp: quiet_replay_def)
  from assms(2) obtain e2 where 2: "r = (None, emit e2 t1)" "uploaded_names e2 = []"
    "\<forall>u \<in> set (fetched_urls e2). blobs t1 (last_segment u) = None"
    by (auto simp: quiet_replay_def)
  from 1 2 show ?thesis
    unfolding quiet_replay_def
    by (intro exI [of _ "e1 @ e2"]) auto
qed

lemma dash_link_dom:
  "dash_link svc l w = (None, w1) \<Longrightarrow>
     dom (blobs w1) = dom (blobs w) \<union> set (eligible_links svc [l])"
  by (auto simp: dash_link_def upload_blob_def attr_def eligible_links_def link_eligible_def
        get_or_def split: option.splits sum.splits if_splits prod.splits)

lemma dash_link_replay:
  "dash_link svc l w = (None, w1) \<Longrightarrow> dom (blobs w1) \<subseteq> dom (blobs t) \<Longrightarrow>
     quiet_replay t (dash_link svc l t)"
proof -
  assume a: "dash_link svc l w = (None, w1)" and sub: "dom (blobs w1) \<subseteq> dom (blobs t)"
  from a obtain ty where ty: "l_type l = Some ty"
    by (auto simp: dash_link_def attr_def split: option.splits)
  show ?thesis
  proof (cases "ty = ''application/pdf''")
    case False
    with ty have "dash_link svc l t = (None, t)"
      by (simp add: dash_link_def attr_def)
    then show ?thesis by (simp add: quiet_replay_refl)
  next
    case True
    from a ty True obtain u where u: "l_href l = Some u" and lb: "list_blobs_error svc = None"
      by (auto simp: dash_link_def attr_def split: option.splits)
    show ?thesis
    proof (cases "blobs t (last_segment u)")
      case (Some d)
      with ty True u lb
      have "dash_link svc l t = (None, emit [ListBlobs, Print (Skipping (last_segment u))] t)"
        by (simp add: dash_link_def attr_def)
      then show ?thesis
        unfolding quiet_replay_def
        by (intro exI [of _ "[ListBlobs, Print (Skipping (last_segment u))]"]) simp
    next
      case None
      from dash_link_dom [OF a] sub None
      have ne: "last_segment u \<notin> set (eligible_links svc [l])"
        and absent: "blobs w (last_segment u) = None"
        by auto
      from ne ty True u have not200:
        "case requests_get svc u of Inl x \<Rightarrow> True | Inr r \<Rightarrow> status_code r \<noteq> 200"
        by (auto simp: eligible_links_def link_eligible_def get_or_def split: sum.splits)
      from a ty True u lb absent not200 obtain r where
        r: "requests_get svc u = Inr r" "status_code r \<noteq> 200"
        by (auto simp: dash_link_def attr_def split: sum.splits)
      with ty True u lb None
      have "dash_link svc l t =
              (None, emit [ListBlobs, Print (DownloadingBlob (last_segment u)), HttpGet u,
                           Print (Failed u)] t)"
        by (simp add: dash_link_def attr_def)
      then show ?thesis
        unfolding quiet_replay_def
        by (intro exI [of _ "[ListBlobs, Print (DownloadingBlob (last_segment u)), HttpGet u,
                           Print (Failed u)]"]) (simp add: None)
    qed
  qed
qed

lemma dash_links_dom:
  "dash_links svc ls w = (None, w1) \<Longrightarrow>
     dom (blobs w1) = dom (blobs w) \<union> set (eligible_links svc ls)"
proof (induction ls arbitrary: w)
  case Nil
  then show ?case by (simp add: eligible_links_def)
next
  case (Cons l ls)
  from Cons.prems obtain w' where
    1: "dash_link svc l w = (None, w')" and 2: "dash_links svc ls w' = (None, w1)"
    by (auto split: prod.splits option.splits)
  from dash_link_dom [OF 1] Cons.IH [OF 2] show ?case
    by (auto simp: eligible_links_def)
qed

lemma dash_links_replay:
  "dash_links svc ls w = (None, w1) \<Longrightarrow> dom (blobs w1) \<subseteq> dom (blobs t) \<Longrightarrow>
     quiet_replay t (dash_links svc ls t)"
proof (induction ls arbitrary: w t)
  case Nil
  then show ?case by (simp add: quiet_replay_refl)
next
  case (Cons l ls)
  from Cons.prems(1) obtain w' where
    1: "dash_link svc l w = (None, w')" and 2: "dash_links svc ls w' = (None, w1)"
    by (auto split: prod.splits option.splits)
  from dash_links_dom [OF 2] Cons.prems(2) have "dom (blobs w') \<subseteq> dom (blobs t)" by auto
  from dash_link_replay [OF 1 this] obtain evs where
    3: "dash_link svc l t = (None, emit evs t)" and q: "quiet_replay t (None, emit evs t)"
    by (auto simp: quiet_replay_def)
  from Cons.prems(2) have "dom (blobs w1) \<subseteq> dom (blobs (emit evs t))" by simp
  from Cons.IH [OF 2 this] have "quiet_replay (emit evs t) (dash_links svc ls (emit evs t))" .
  with q have "quiet_replay t (dash_links svc ls (emit evs t))"
    by (rule quiet_replay_trans)
  with 3 show ?case by simp
qed

lemma dash_entries_dom:
  "dash_entries svc es w = (None, w1) \<Longrightarrow>
     dom (blobs w1) = dom (blobs w) \<union> set (eligible_names svc es)"
proof (induction es arbitrary: w)
  case Nil
  then show ?case by (simp add: eligible_names_def)
next
  case (Cons e es)
  from Cons.prems obtain ls w' where ls: "e_links e = Some ls" and
    1: "dash_links svc ls w = (None, w')" and 2: "dash_entries svc es w' = (None, w1)"
    by (auto simp: attr_def split: prod.splits option.splits)
  from dash_links_dom [OF 1] Cons.IH [OF 2] ls show ?case
    by (auto simp: eligible_names_def get_or_def)
qed

lemma dash_entries_replay:
  "dash_entries svc es w = (None, w1) \<Longrightarrow> dom (blobs w1) \<subseteq> dom (blobs t) \<Longrightarrow>
     quiet_replay t (dash_entries svc es t)"
proof (induction es arbitrary: w t)
  case Nil
  then show ?case by (simp add: quiet_replay_refl)
next
  case (Cons e es)
  from Cons.prems(1) obtain ls w' where ls: "e_links e = Some ls" and
    1: "dash_links svc ls w = (None, w')" and 2: "dash_entries svc es w' = (None, w1)"
    by (auto simp: attr_def split: prod.splits option.splits)
  from dash_entries_dom [OF 2] Cons.prems(2) have "dom (blobs w') \<subseteq> dom (blobs t)" by auto
  from dash_links_replay [OF 1 this] obtain evs where
    3: "dash_links svc ls t = (None, emit evs t)" and q: "quiet_replay t (None, emit evs t)"
    by (auto simp: quiet_replay_def)
  from Cons.prems(2) have "dom (blobs w1) \<subseteq> dom (blobs (emit evs t))" by simp
  from Cons.IH [OF 2 this] have "quiet_replay (emit evs t) (dash_entries svc es (emit evs t))" .
  with q have "quiet_replay t (dash_entries svc es (emit evs t))"
    by (rule quiet_replay_trans)
  with 3 ls show ?case by (simp add: attr_def)
qed

text \<open>
  Claim C1 (idempotency), as amended. Only \<^verbatim>\<open>dash_ingest.py\<close> asks the sink whether an
  item is already there. When its first run from an empty container completes, the
  container holds exactly the file names of the PDF links whose download answered 200,
  one blob per distinct name. A second run over the same feed and the same responses
  then completes as well, uploads nothing, leaves the container as it was, and downloads
  only files whose name is not in the container: every item that is present is skipped
  before any download or upload.
\<close>

theorem dash_ingest_idempotent:
  assumes first: "dash_ingest_run environ svc \<lparr>files = fs, blobs = Map.empty, trace = []\<rparr>
                    = (Completed, w1)"
  shows "\<exists>entries w2.
           feedparser_parse svc DASH_FEED_URL = Inr entries \<and>
           dom (blobs w1) = set (eligible_names svc entries) \<and>
           card (dom (blobs w1)) = length (remdups (eligible_names svc entries)) \<and>
           dash_ingest_run environ svc (w1\<lparr>trace := []\<rparr>) = (Completed, w2) \<and>
           blobs w2 = blobs w1 \<and>
           uploaded_names (trace w2) = [] \<and>
           (\<forall>u \<in> set (fetched_urls (trace w2)). blobs w1 (last_segment u) = None)"
proof -
  let ?w0 = "\<lparr>files = fs, blobs = Map.empty, trace = []\<rparr>"
  from first obtain conn_str entries where
    env: "environ ''AZURE_STORAGE_CONN_STRING'' = Some conn_str"
    and conn: "from_connection_string svc (Some conn_str) = None"
    and feed: "feedparser_parse svc DASH_FEED_URL = Inr entries"
    and run1: "dash_entries svc entries (emit [FeedParse DASH_FEED_URL] ?w0) = (None, w1)"
    by (auto simp: dash_ingest_run_def split: option.splits sum.splits prod.splits)
  from dash_entries_dom [OF run1]
  have dom1: "dom (blobs w1) = set (eligible_names svc entries)" by simp
  have card1: "card (dom (blobs w1)) = length (remdups (eligible_names svc entries))"
    by (simp add: dom1 length_remdups_card_conv)
  let ?t = "emit [FeedParse DASH_FEED_URL] (w1\<lparr>trace := []\<rparr>)"
  have "dom (blobs w1) \<subseteq> dom (blobs ?t)" by simp
  from dash_entries_replay [OF run1 this] obtain evs where
    run2: "dash_entries svc entries ?t = (None, emit evs ?t)"
    and up: "uploaded_names evs = []"
    and fe: "\<forall>u \<in> set (fetched_urls evs). blobs w1 (last_segment u) = None"
    by (auto simp: quiet_replay_def)
  have "dash_ingest_run environ svc (w1\<lparr>trace := []\<rparr>) = (Completed, emit evs ?t)"
    using env conn feed run2 by (simp add: dash_ingest_run_def)
  with feed dom1 card1 up fe show ?thesis
    by (intro exI [of _ entries] exI [of _ "emit evs ?t"]) (simp add: emit_def)
qed

lemma pipeline_entry_not_pdf:
  "not_pdf_entry e \<Longrightarrow> pipeline_entry svc e w = (None, w)"
  by (auto simp: not_pdf_entry_def pipeline_entry_def attr_def split: option.splits)

lemma pipeline_loop_filter:
  "pipeline_loop svc es w = pipeline_loop svc (filter (\<lambda>e. \<not> not_pdf_entry e) es) w"
proof (induction es arbitrary: w)
  case Nil
  show ?case by simp
next
  case (Cons e es)
  show ?case
  proof (cases "not_pdf_entry e")
    case True
    with Cons.IH show ?thesis by (simp add: pipeline_entry_not_pdf)
  next
    case False
    with Cons.IH show ?thesis by (simp split: prod.splits option.splits)
  qed
qed

lemma dash_links_no_pdf:
  "list_all (\<lambda>l. case l_type l of Some ty \<Rightarrow> ty \<noteq> ''application/pdf'' | None \<Rightarrow> False) ls \<Longrightarrow>
     dash_links svc ls w = (None, w)"
  by (induction ls) (auto simp: dash_link_def attr_def split: option.splits)

lemma dash_entries_filter:
  "dash_entries svc es w = dash_entries svc (filter (\<lambda>e. \<not> no_pdf_links e) es) w"
proof (induction es arbitrary: w)
  case Nil
  show ?case by simp
next
  case (Cons e es)
  show ?case
  proof (cases "no_pdf_links e")
    case True
    then obtain ls where "e_links e = Some ls" "dash_links svc ls w = (None, w)"
      by (auto simp: no_pdf_links_def dash_links_no_pdf split: option.splits)
    with True Cons.IH show ?thesis by (simp add: attr_def)
  next
    case False
    with Cons.IH show ?thesis by (simp split: prod.splits option.splits sum.splits)
  qed
qed

text \<open>
  Claim C9 (entries without a PDF link), as amended. In \<^verbatim>\<open>pipeline.py\<close> the loop body
  does nothing for an entry that has a title and a link not ending in \<^verbatim>\<open>.pdf\<close>, and in
  \<^verbatim>\<open>dash_ingest.py\<close> the loop body does nothing for an entry whose links all have a type
  other than \<^verbatim>\<open>application/pdf\<close>: no download, no upload, no line printed, no
  exception. Each loop gives the same result, state and trace on the feed with these
  entries taken out.
\<close>

theorem entries_without_pdf_leave_no_mark:
  "(not_pdf_entry e \<longrightarrow> pipeline_entry svc e w = (None, w)) \<and>
   pipeline_loop svc es w = pipeline_loop svc (filter (\<lambda>e. \<not> not_pdf_entry e) es) w \<and>
   (no_pdf_links e \<longrightarrow> dash_entries svc [e] w = (None, w)) \<and>
   dash_entries svc es w = dash_entries svc (filter (\<lambda>e. \<not> no_pdf_links e) es) w"
proof (intro conjI impI)
  show "pipeline_loop svc es w = pipeline_loop svc (filter (\<lambda>e. \<not> not_pdf_entry e) es) w"
    by (rule pipeline_loop_filter)
  show "dash_entries svc es w = dash_entries svc (filter (\<lambda>e. \<not> no_pdf_links e) es) w"
    by (rule dash_entries_filter)
next
  assume "no_pdf_links e"
  then show "dash_entries svc [e] w = (None, w)"
    using dash_entries_filter [of svc "[e]" w] by simp
next
  assume "not_pdf_entry e"
  then show "pipeline_entry svc e w = (None, w)"
    by (rule pipeline_entry_not_pdf)
qed

lemmas eval_defs =
  pipeline_run_def pipeline_entry_def download_pdf_def upload_blob_def emit_def attr_def
  dash_ingest_run_def dash_link_def
  conn_env_def sample_services_def sample_config_def empty_world_def feed_entry_def
  DASH_RSS_FEED_def DASH_FEED_URL_def DOWNLOAD_DIR_def path_join_def endswith_def
  replace_space_slash_def last_segment_def

text \<open>
  Claim C1 as stated fails for \<^verbatim>\<open>pipeline.py\<close>, which never asks the sink: with one PDF
  entry, the first run uploads \<^verbatim>\<open>Paper_A.pdf\<close>, and the second run, started from the
  state the first one left, uploads \<^verbatim>\<open>Paper_A.pdf\<close> once more (with overwrite).
\<close>

theorem second_pipeline_run_writes_again:
  "blobs (snd (pipeline_run conn_env
      (sample_services\<lparr>feedparser_parse :=
         (\<lambda>url. Inr [feed_entry ''Paper A'' ''https://dash.example/a.pdf'' ''application/pdf''])\<rparr>)
      empty_world)) ''Paper_A.pdf'' = Some ''%PDF'' \<and>
   uploaded_names (trace (snd (pipeline_run conn_env
      (sample_services\<lparr>feedparser_parse :=
         (\<lambda>url. Inr [feed_entry ''Paper A'' ''https://dash.example/a.pdf'' ''application/pdf''])\<rparr>)
      ((snd (pipeline_run conn_env
         (sample_services\<lparr>feedparser_parse :=
            (\<lambda>url. Inr [feed_entry ''Paper A'' ''https://dash.example/a.pdf'' ''application/pdf''])\<rparr>)
         empty_world))\<lparr>trace := []\<rparr>)))) = [''Paper_A.pdf'']"
  by (simp add: eval_defs)

text \<open>In \<^verbatim>\<open>dash_ingest.py\<close> a download that answers anything but 200 uploads nothing:
  the link is reported as failed and the loop goes on.\<close>

lemma dash_link_non_success:
  assumes "l_type l = Some ''application/pdf''" and "l_href l = Some pdf_url"
    and "list_blobs_error svc = None" and "blobs w (last_segment pdf_url) = None"
    and "requests_get svc pdf_url = Inr r" and "status_code r \<noteq> 200"
  shows "dash_link svc l w =
           (None, emit [ListBlobs, Print (DownloadingBlob (last_segment pdf_url)),
                        HttpGet pdf_url, Print (Failed pdf_url)] w)"
  using assms by (simp add: dash_link_def attr_def)

text \<open>
  Claim C7 (only a success status is content) holds in \<^verbatim>\<open>dash_ingest.py\<close>, which tests
  the status code, and is broken by \<^verbatim>\<open>pipeline.py\<close>, which never reads it: when the
  download of a PDF link answers 404, the body of the error page is written to the local
  file and uploaded as \<^verbatim>\<open>Paper_A.pdf\<close>, and the run reports the upload.
\<close>

theorem pipeline_uploads_error_page:
  "pipeline_run conn_env
      (sample_services\<lparr>
         feedparser_parse :=
           (\<lambda>url. Inr [feed_entry ''Paper A'' ''https://dash.example/a.pdf'' ''application/pdf'']),
         requests_get := (\<lambda>url. Inr \<lparr>status_code = 404, content = ''Not Found''\<rparr>)\<rparr>)
      empty_world
    = (Completed,
       \<lparr> files = [''downloads/Paper_A.pdf'' \<mapsto> ''Not Found''],
         blobs = [''Paper_A.pdf'' \<mapsto> ''Not Found''],
         trace = [FeedParse DASH_RSS_FEED, Print (FoundEntries 1), Print (Downloading ''Paper_A''),
                  HttpGet ''https://dash.example/a.pdf'',
                  UploadBlob ''Paper_A.pdf'' ''Not Found'' True,
                  Print (Uploaded ''Paper_A.pdf''), Print RunComplete] \<rparr>)"
  by (simp add: eval_defs)

text \<open>
  Claim C2 as stated fails for \<^verbatim>\<open>dash_ingest.py\<close>, which has no exception handler: when
  the download of the first of two PDF links raises, the exception leaves the loop and
  ends the run, and the second link is never attempted.
\<close>

theorem dash_ingest_stops_at_failed_fetch:
  "dash_ingest_run conn_env
      (sample_services\<lparr>
         feedparser_parse :=
           (\<lambda>url. Inr [feed_entry ''Paper A'' ''https://dash.example/a.pdf'' ''application/pdf'',
                       feed_entry ''Paper B'' ''https://dash.example/b.pdf'' ''application/pdf'']),
         requests_get :=
           (\<lambda>url. if url = ''https://dash.example/a.pdf'' then Inl (ServiceError ''ConnectionError'')
                  else Inr \<lparr>status_code = 200, content = ''%PDF''\<rparr>)\<rparr>)
      empty_world
    = (Uncaught (ServiceError ''ConnectionError''),
       \<lparr> files = Map.empty, blobs = Map.empty,
         trace = [FeedParse DASH_FEED_URL, ListBlobs, Print (DownloadingBlob ''a.pdf''),
                  HttpGet ''https://dash.example/a.pdf''] \<rparr>)"
  by (simp add: eval_defs)

text \<open>
  Claim C3 as stated fails for \<^verbatim>\<open>pipeline.py\<close>: with the connection string present, an
  upload that raises is not caught, so the failure of one item ends the process with
  exit code 1.
\<close>

theorem failed_upload_gives_nonzero_exit:
  "conn_env ''AZURE_CONNECTION_STRING'' = Some ''UseDevelopmentStorage=true'' \<and>
   pipeline_run conn_env
      (sample_services\<lparr>
         feedparser_parse := (\<lambda>url. Inr sample_pdf_feed),
         upload_blob_error := (\<lambda>name. Some (ServiceError ''HttpResponseError''))\<rparr>)
      empty_world
    = (Uncaught (ServiceError ''HttpResponseError''),
       \<lparr> files = [''downloads/Paper_A.pdf'' \<mapsto> ''%PDF''], blobs = Map.empty,
         trace = [FeedParse DASH_RSS_FEED, Print (FoundEntries 3), Print (Downloading ''Paper_A''),
                  HttpGet ''https://dash.example/a.pdf'',
                  UploadBlob ''Paper_A.pdf'' ''%PDF'' True] \<rparr>) \<and>
   exit_code (Uncaught (ServiceError ''HttpResponseError'')) = 1"
  by (simp add: eval_defs sample_pdf_feed_def)

text \<open>
  Claim C4 as stated fails at the empty reply, which \<^verbatim>\<open>json.loads\<close> rejects as any JSON
  parser does: the significance of the substituted dictionary is the empty string.
\<close>

theorem empty_reply_gives_empty_significance:
  "fst (analyze_paper_with_ai sample_config
          (sample_services\<lparr>chat_completions_create := (\<lambda>base_url text. Inr '''')\<rparr>)
          (paper_of_entry (feed_entry ''Paper A'' ''https://dash.example/a.pdf'' ''application/pdf'')))
     = Some (default_analysis '''') \<and>
   dict_get (default_analysis '''') ''significance'' JNull = Inr (JStr '''')"
  by (simp add: analyze_paper_with_ai_def attr_def sample_config_def sample_services_def
        endswith_def strip_def default_analysis_def)

text \<open>
  Claim C5 as stated fails for \<^verbatim>\<open>pipeline.py\<close>, which has no limit: from a feed of eleven
  PDF entries it uploads eleven blobs.
\<close>

theorem pipeline_has_no_batch_bound:
  "MAX_PAPERS_PER_RUN < length eleven_entries \<and>
   uploaded_names (trace (snd (pipeline_run conn_env
      (sample_services\<lparr>feedparser_parse := (\<lambda>url. Inr eleven_entries)\<rparr>) empty_world)))
     = map (\<lambda>t. t @ ''.pdf'') eleven_titles"
  by (simp add: eval_defs eleven_entries_def eleven_titles_def MAX_PAPERS_PER_RUN_def)

text \<open>
  Claim C9 as stated fails for the output of \<^verbatim>\<open>pipeline.py\<close>: its first line prints the
  number of all entries of the feed, so a feed with one entry that has no PDF link prints
  \<^verbatim>\<open>Found 1 entries\<close> where the empty feed prints \<^verbatim>\<open>Found 0 entries\<close>.
\<close>

theorem pipeline_counts_entries_without_pdf:
  "not_pdf_entry (feed_entry ''Notes'' ''https://dash.example/notes.html'' ''text/html'') \<and>
   trace (snd (pipeline_run conn_env
      (sample_services\<lparr>feedparser_parse :=
         (\<lambda>url. Inr [feed_entry ''Notes'' ''https://dash.example/notes.html'' ''text/html''])\<rparr>)
      empty_world))
     = [FeedParse DASH_RSS_FEED, Print (FoundEntries 1), Print RunComplete] \<and>
   trace (snd (pipeline_run conn_env
      (sample_services\<lparr>feedparser_parse := (\<lambda>url. Inr [])\<rparr>) empty_world))
     = [FeedParse DASH_RSS_FEED, Print (FoundEntries 0), Print RunComplete]"
  by (simp add: eval_defs not_pdf_entry_def)

lemmas harvard_defs =
  main_def validate_environment_def missing_def required_def not_value_def
  fetch_harvard_papers_def paper_of_entry_def get_or_def process_paper_def
  analyze_paper_with_ai_def store_in_supabase_def row_data_def default_analysis_def
  text_to_analyze_def attr_def endswith_def strip_def is_space_def success_rate_def
  MAX_PAPERS_PER_RUN_def MAX_TEXT_LENGTH_def DASH_RSS_FEED_def
  sample_config_def sample_services_def feed_entry_def

lemma main_summary_event:
  "Print (SummaryCounts n s f) \<in> set (snd (main cfg svc)) \<Longrightarrow>
     s + f = n \<and> 0 < n \<and> success_rate s n = Inr (of_nat s / of_nat n * 100)"
  using summary_counts_add_up [of n s f cfg svc] by (auto simp: success_rate_def)

text \<open>
  Claim C10 (the counters add up). A run of \<^verbatim>\<open>ingest_harvard.py\<close> never ends in a
  ZeroDivisionError, and whenever it prints the summary counts, the successful and the
  failed papers add up to the number of fetched papers, that number is positive, and the
  success rate is the defined quotient.
\<close>

theorem summary_division_is_defined:
  "fst (main cfg svc) \<noteq> Uncaught ZeroDivisionError \<and>
   (Print (SummaryCounts n s f) \<in> set (snd (main cfg svc)) \<longrightarrow>
      s + f = n \<and> 0 < n \<and> success_rate s n = Inr (of_nat s / of_nat n * 100))"
  using main_summary_event [of n s f cfg svc] by (simp add: main_outcome)

lemma two_paper_run:
  "snd (main sample_config two_paper_services) =
     [Print EnvValidated, Print FetchingPapers, FeedParse DASH_RSS_FEED, Print (FetchedPapers 2),
      Print (ProcessingPaper 1 2), Print (Analyzing ''Paper A''),
      ChatCall ''https://ai.example/v1''
        (text_to_analyze (paper_of_entry
           (feed_entry ''Paper A'' ''https://dash.example/a.pdf'' ''application/pdf''))),
      Print AnalysisCompleted, Print (Topic (JStr ''Academic Research'')), Print Storing,
      UpsertCall (long_row\<lparr>summary := ''About tides.''\<rparr>),
      Print (InsertFailed (ServiceError ''timeout'')),
      Print (ProcessingPaper 2 2), Print (Analyzing ''Paper B''),
      ChatCall ''https://ai.example/v1''
        (text_to_analyze (paper_of_entry
           (feed_entry ''Paper B'' ''https://dash.example/b.pdf'' ''application/pdf''))),
      Print AnalysisCompleted, Print (Topic (JStr ''Academic Research'')), Print Storing,
      UpsertCall (long_row\<lparr>summary := ''About tides.'', paper_id := ''https://dash.example/b.pdf'',
                    title := ''Paper B'', link := ''https://dash.example/b.pdf''\<rparr>),
      Print InsertSuccessful, Print (RecordId ''https://dash.example/b.pdf''),
      Print (SummaryCounts 2 1 1), Print (SuccessRate 50), Print ExecutionComplete]"
  by (simp add: harvard_defs two_paper_services_def long_row_def)

text \<open>
  Claim C10, the theorem at the run over two papers of which one fails.
\<close>

theorem summary_division_is_defined_witness:
  "fst (main sample_config two_paper_services) \<noteq> Uncaught ZeroDivisionError \<and>
   Print (SummaryCounts 2 1 1) \<in> set (snd (main sample_config two_paper_services)) \<and>
   (1::nat) + 1 = 2 \<and> success_rate 1 2 = Inr 50"
proof -
  have ev: "Print (SummaryCounts 2 1 1) \<in> set (snd (main sample_config two_paper_services))"
    by (simp add: two_paper_run)
  from summary_division_is_defined [of sample_config two_paper_services 2 1 1] ev
  show ?thesis by simp
qed

text \<open>
  Claim C1, the theorem at a feed with one PDF that downloads, one PDF that answers 404
  and one HTML page: the first run stores one blob, the second run stores none.
\<close>

theorem dash_ingest_idempotent_witness:
  "dash_ingest_run conn_env dash_sample_services
      \<lparr>files = Map.empty, blobs = Map.empty, trace = []\<rparr> = (Completed, dash_first_world) \<and>
   card (dom (blobs dash_first_world)) = 1 \<and>
   (\<exists>w2. dash_ingest_run conn_env dash_sample_services (dash_first_world\<lparr>trace := []\<rparr>)
            = (Completed, w2) \<and>
         blobs w2 = blobs dash_first_world \<and> uploaded_names (trace w2) = [])"
proof -
  have first: "dash_ingest_run conn_env dash_sample_services
      \<lparr>files = Map.empty, blobs = Map.empty, trace = []\<rparr> = (Completed, dash_first_world)"
    by (simp add: eval_defs dash_sample_services_def sample_pdf_feed_def dash_first_world_def)
  have feed: "feedparser_parse dash_sample_services DASH_FEED_URL = Inr sample_pdf_feed"
    by (simp add: dash_sample_services_def)
  have names: "eligible_names dash_sample_services sample_pdf_feed = [''a.pdf'']"
    by (simp add: eligible_names_def eligible_links_def link_eligible_def get_or_def
          last_segment_def dash_sample_services_def sample_pdf_feed_def feed_entry_def)
  from dash_ingest_idempotent [OF first] feed names first show ?thesis
    by auto
qed

text \<open>
  Claim C2, the theorem at a feed of two papers where storing the first one raises: the
  second paper is still analysed and stored, and the summary counts one success and one
  failure.
\<close>

theorem failure_isolation_witness:
  "fst (main sample_config two_paper_services) = Completed \<and>
   analyzing_titles (snd (main sample_config two_paper_services)) = [''Paper A'', ''Paper B''] \<and>
   Print (SummaryCounts 2 1 1) \<in> set (snd (main sample_config two_paper_services))"
proof -
  let ?a = "paper_of_entry (feed_entry ''Paper A'' ''https://dash.example/a.pdf'' ''application/pdf'')"
  let ?b = "paper_of_entry (feed_entry ''Paper B'' ''https://dash.example/b.pdf'' ''application/pdf'')"
  have valid: "missing sample_config = []"
    by (simp add: missing_def required_def not_value_def sample_config_def)
  have papers: "fst (fetch_harvard_papers two_paper_services) = [?a, ?b]"
    by (simp add: fetch_harvard_papers_def two_paper_services_def sample_services_def
          MAX_PAPERS_PER_RUN_def)
  have a: "\<not> paper_ok sample_config two_paper_services ?a"
    by (simp add: paper_ok_def harvard_defs two_paper_services_def)
  have b: "paper_ok sample_config two_paper_services ?b"
    by (simp add: paper_ok_def harvard_defs two_paper_services_def)
  have t: "p_title ?a = ''Paper A''" "p_title ?b = ''Paper B''"
    by (simp_all add: paper_of_entry_def feed_entry_def get_or_def)
  from failure_isolation [OF valid papers] a b t show ?thesis
    by (simp add: numeral_2_eq_2)
qed

text \<open>
  Claim C3, the theorem at an empty environment (all three scripts abort) and at a
  complete configuration (exit code 0).
\<close>

theorem configuration_check_witness:
  "fst (main (load_config (\<lambda>k. None)) sample_services) = SysExit 1 \<and>
   filter is_call (snd (main (load_config (\<lambda>k. None)) sample_services)) = [] \<and>
   exit_code (fst (main sample_config sample_services)) = 0 \<and>
   dash_ingest_run (\<lambda>k. None) sample_services empty_world = (Uncaught KeyError, empty_world) \<and>
   pipeline_run (\<lambda>k. None)
     (sample_services\<lparr>from_connection_string :=
        (\<lambda>c. if c = None then Some AttributeError else None)\<rparr>) empty_world
     = (Uncaught AttributeError, empty_world)"
proof -
  have m: "missing (load_config (\<lambda>k. None)) \<noteq> []"
    by (simp add: missing_def required_def not_value_def load_config_def)
  have v: "missing sample_config = []"
    by (simp add: missing_def required_def not_value_def sample_config_def)
  from configuration_check [of "load_config (\<lambda>k. None)" sample_services "\<lambda>k. None" empty_world
         AttributeError]
       configuration_check [of sample_config
         "sample_services\<lparr>from_connection_string :=
            (\<lambda>c. if c = None then Some AttributeError else None)\<rparr>"
         "\<lambda>k. None" empty_world AttributeError]
       configuration_check [of sample_config sample_services "\<lambda>k. None" empty_world
         AttributeError] m v
  show ?thesis by simp
qed

text \<open>
  Claim C4, the theorem at a reply that is plain prose between a no-break space and a
  next-line character: both are stripped, the default dictionary is built from the prose
  alone, and the paper is stored.
\<close>

theorem default_substitution_witness:
  "fst (analyze_paper_with_ai sample_config
          (sample_services\<lparr>chat_completions_create :=
             (\<lambda>base_url text. Inr (CHR 0xA0 # ''A study of tides.'' @ [CHR 0x85]))\<rparr>)
          (paper_of_entry (feed_entry ''Paper A'' ''https://dash.example/a.pdf'' ''application/pdf'')))
     = Some (default_analysis ''A study of tides.'') \<and>
   dict_get (default_analysis ''A study of tides.'') ''significance'' JNull
     = Inr (JStr ''A study of tides.'') \<and>
   fst (process_paper sample_config
          (sample_services\<lparr>chat_completions_create :=
             (\<lambda>base_url text. Inr (CHR 0xA0 # ''A study of tides.'' @ [CHR 0x85]))\<rparr>) 1 1
          (paper_of_entry (feed_entry ''Paper A'' ''https://dash.example/a.pdf'' ''application/pdf'')))"
proof -
  let ?p = "paper_of_entry (feed_entry ''Paper A'' ''https://dash.example/a.pdf'' ''application/pdf'')"
  let ?svc = "sample_services\<lparr>chat_completions_create :=
                (\<lambda>base_url text. Inr (CHR 0xA0 # ''A study of tides.'' @ [CHR 0x85]))\<rparr>"
  have s: "strip (CHR 0xA0 # ''A study of tides.'' @ [CHR 0x85]) = ''A study of tides.''"
    by (simp add: strip_def is_space_def)
  have e: "AZURE_AI_ENDPOINT sample_config = Some ''https://ai.example''"
    by (simp add: sample_config_def)
  have c: "openai_client ?svc (AZURE_AI_KEY sample_config)
             (if endswith ''https://ai.example'' ''/v1'' then ''https://ai.example''
              else ''https://ai.example'' @ ''/v1'') = None"
    by (simp add: sample_services_def)
  have r: "chat_completions_create ?svc
             (if endswith ''https://ai.example'' ''/v1'' then ''https://ai.example''
              else ''https://ai.example'' @ ''/v1'') (text_to_analyze ?p)
             = Inr (CHR 0xA0 # ''A study of tides.'' @ [CHR 0x85])"
    by (simp add: sample_services_def)
  have j: "json_loads ?svc (strip (CHR 0xA0 # ''A study of tides.'' @ [CHR 0x85]))
             = Inl JSONDecodeError"
    by (simp add: sample_services_def)
  have st: "fst (store_in_supabase sample_config ?svc ?p
                   (default_analysis ''A study of tides.''))"
    by (simp add: store_in_supabase_def row_data_def default_analysis_def sample_services_def)
  from default_substitution [OF e c r j, of JNull 1 1] s st show ?thesis by simp
qed

text \<open>
  Claim C5, the theorem at a feed of eleven entries: ten papers are fetched and analysed,
  the eleventh is left out.
\<close>

theorem batch_bound_witness:
  "length (fst (fetch_harvard_papers eleven_services)) = 10 \<and>
   analyzing_titles (snd (main sample_config eleven_services))
     = [''a'', ''b'', ''c'', ''d'', ''e'', ''f'', ''g'', ''h'', ''i'', ''j'']"
proof -
  have valid: "missing sample_config = []"
    by (simp add: missing_def required_def not_value_def sample_config_def)
  have feed: "feedparser_parse eleven_services DASH_RSS_FEED = Inr eleven_entries"
    by (simp add: eleven_services_def)
  have more: "MAX_PAPERS_PER_RUN < length eleven_entries"
    by (simp add: MAX_PAPERS_PER_RUN_def eleven_entries_def eleven_titles_def)
  have t: "map (\<lambda>e. take 60 (p_title (paper_of_entry e))) (take MAX_PAPERS_PER_RUN eleven_entries)
             = [''a'', ''b'', ''c'', ''d'', ''e'', ''f'', ''g'', ''h'', ''i'', ''j'']"
    by (simp add: MAX_PAPERS_PER_RUN_def eleven_entries_def eleven_titles_def
          paper_of_entry_def feed_entry_def get_or_def)
  have n: "length eleven_entries = 11"
    by (simp add: eleven_entries_def eleven_titles_def)
  from batch_bound [OF valid feed more] t n show ?thesis
    by (simp add: MAX_PAPERS_PER_RUN_def)
qed



text \<open>
  Claim C8, the theorem at an empty feed and at a feed parser that raises.
\<close>

theorem feed_failure_is_graceful_witness:
  "fst (main sample_config sample_services) = Completed \<and>
   filter is_call (snd (main sample_config sample_services)) = [FeedParse DASH_RSS_FEED] \<and>
   exit_code (fst (main sample_config
      (sample_services\<lparr>feedparser_parse := (\<lambda>url. Inl (ServiceError ''URLError''))\<rparr>))) = 0 \<and>
   filter is_call (snd (main sample_config
      (sample_services\<lparr>feedparser_parse := (\<lambda>url. Inl (ServiceError ''URLError''))\<rparr>)))
     = [FeedParse DASH_RSS_FEED]"
proof -
  have valid: "missing sample_config = []"
    by (simp add: missing_def required_def not_value_def sample_config_def)
  from feed_failure_is_graceful [OF valid, of sample_services]
       feed_failure_is_graceful [OF valid,
         of "sample_services\<lparr>feedparser_parse := (\<lambda>url. Inl (ServiceError ''URLError''))\<rparr>"]
  show ?thesis by (simp add: sample_services_def)
qed

text \<open>
  Claim C9, the theorem at an HTML entry, alone and in a feed with two PDF entries.
\<close>

theorem entries_without_pdf_leave_no_mark_witness:
  "pipeline_entry sample_services
      (feed_entry ''Notes'' ''https://dash.example/notes.html'' ''text/html'') empty_world
     = (None, empty_world) \<and>
   dash_entries sample_services
      [feed_entry ''Notes'' ''https://dash.example/notes.html'' ''text/html''] empty_world
     = (None, empty_world) \<and>
   dash_entries dash_sample_services sample_pdf_feed empty_world
     = dash_entries dash_sample_services (take 2 sample_pdf_feed) empty_world"
proof -
  let ?e = "feed_entry ''Notes'' ''https://dash.example/notes.html'' ''text/html''"
  have 1: "not_pdf_entry ?e"
    by (simp add: not_pdf_entry_def feed_entry_def endswith_def)
  have 2: "no_pdf_links ?e"
    by (simp add: no_pdf_links_def feed_entry_def)
  have 3: "filter (\<lambda>e. \<not> no_pdf_links e) sample_pdf_feed = take 2 sample_pdf_feed"
    by (simp add: no_pdf_links_def feed_entry_def sample_pdf_feed_def)
  from entries_without_pdf_leave_no_mark [of ?e sample_services empty_world "[]"]
       entries_without_pdf_leave_no_mark [of ?e dash_sample_services empty_world sample_pdf_feed]
       1 2 3
  show ?thesis by simp
qed

end
